theory Spec2Isabelle
  imports Complex_Main
begin

section \<open>Requests to the server\<close>

text \<open>
  Every model talks to the server through an AJAX call. A call is recorded as the request
  it sends: method, action URL and arguments.
\<close>

datatype http_method = GET | POST

record request =
  req_method :: http_method
  req_url :: string
  req_args :: "(string \<times> string) list"


section \<open>The wordlist page: \<open>lib.updateProcessBar\<close>\<close>

text \<open>
  \<^verbatim>\<open>jqueryPeriodic({ period: 1000, decay: 1.2, max_period: 60000 }, function () { $.ajax({...}) })\<close>
  The options object handed to the periodic scheduler (times in milliseconds).
\<close>

record periodic_options =
  period :: rat
  decay :: rat
  max_period :: rat

text \<open>What \<open>lib.updateProcessBar\<close> registers: the scheduler options and the request that the
  scheduled callback sends each time it runs.\<close>

record periodic_job =
  job_options :: periodic_options
  job_request :: request

definition updateProcessBar :: "string \<Rightarrow> string \<Rightarrow> string \<Rightarrow> periodic_job" where
  "updateProcessBar corpNameUrl subcName attrName =
     (let params = corpNameUrl @ ''&amp;usesubcorp='' @ subcName @ ''&amp;attrname='' @ attrName
      in \<lparr> job_options = \<lparr> period = 1000, decay = 12 / 10, max_period = 60000 \<rparr>,
           job_request = \<lparr> req_method = GET, req_url = ''wordlist_process'',
                           req_args = [(''data'', params)] \<rparr> \<rparr>)"

text \<open>The \<open>complete\<close> handler of that request: the response text becomes the width of the
  progress bar, and the page is reloaded once the text is \<open>100%\<close>. There is no other branch.\<close>

datatype wordlist_effect = SetProcessbarWidth string | ReloadPage

definition updateProcessBar_complete :: "string \<Rightarrow> wordlist_effect list" where
  "updateProcessBar_complete responseText =
     SetProcessbarWidth responseText # (if responseText = ''100%'' then [ReloadPage] else [])"

text \<open>
  Modelled from the spec: the module \<open>jquery.periodic\<close> is not among the sources. The words
  "repeatedly with period 1000 ms, decay factor 1.2 and max period 60000 ms" are read as the
  scheduler's rule for the waiting time before each run of the callback: the first wait is
  \<open>period\<close>; after a run the wait is multiplied by \<open>decay\<close>, reset to \<open>period\<close> if it fell below
  it, and cut to \<open>max_period\<close> if it rose above it. Waiting times are exact rationals here.
\<close>

fun cur_period :: "periodic_options \<Rightarrow> nat \<Rightarrow> rat" where
  "cur_period opts 0 = period opts"
| "cur_period opts (Suc n) =
     (let c = cur_period opts n * decay opts
      in if c < period opts then period opts
         else if c > max_period opts then max_period opts
         else c)"


section \<open>The tag builder: \<open>TagLoader\<close>\<close>

text \<open>
  A server response of \<open>ajax_get_tag_variants\<close> is a JSON object; only its keys and values
  matter here. \<open>initialValues\<close> starts as \<open>null\<close> (\<open>None\<close>).
\<close>

type_synonym 'v json_object = "(string \<times> 'v) list"

definition hasOwnProperty :: "'v json_object \<Rightarrow> string \<Rightarrow> bool" where
  "hasOwnProperty obj k = (k \<in> fst ` set obj)"

record 'v TagLoader =
  corpusName :: string
  initialValues :: "'v json_object option"

definition new_TagLoader :: "string \<Rightarrow> 'v TagLoader" where
  "new_TagLoader corpName = \<lparr> corpusName = corpName, initialValues = None \<rparr>"

datatype 'v tag_effect =
    Ajax request
  | Callback "'v json_object"
  | ModalClose
  | ErrorCallback "'v option"

definition loadInitialVariants :: "'v TagLoader \<Rightarrow> 'v tag_effect list" where
  "loadInitialVariants self =
     (let url = ''ajax_get_tag_variants?corpname='' @ corpusName self
      in case initialValues self of
           None \<Rightarrow> [Ajax \<lparr> req_method = GET, req_url = url, req_args = [] \<rparr>]
         | Some stored \<Rightarrow> [Callback stored])"

text \<open>The \<open>success\<close> and \<open>error\<close> handlers of the request sent by \<open>loadInitialVariants\<close>.\<close>

definition loadInitialVariants_success ::
  "'v TagLoader \<Rightarrow> 'v json_object \<Rightarrow> 'v TagLoader \<times> 'v tag_effect list" where
  "loadInitialVariants_success self data =
     (if hasOwnProperty data ''error''
      then (self, [ModalClose, ErrorCallback (map_of data ''error'')])
      else (self\<lparr> initialValues := Some data \<rparr>, [Callback data]))"

definition loadInitialVariants_error :: "'v TagLoader \<Rightarrow> 'v TagLoader \<times> 'v tag_effect list" where
  "loadInitialVariants_error self = (self, [ModalClose, ErrorCallback None])"

definition loadPatternVariants :: "'v TagLoader \<Rightarrow> string \<Rightarrow> 'v tag_effect list" where
  "loadPatternVariants self pattern =
     (let url = ''ajax_get_tag_variants?corpname='' @ corpusName self @ ''&pattern='' @ pattern
      in [Ajax \<lparr> req_method = GET, req_url = url, req_args = [] \<rparr>])"

text \<open>The requests among the effects of a call.\<close>

fun requests_of :: "'v tag_effect list \<Rightarrow> request list" where
  "requests_of [] = []"
| "requests_of (Ajax r # es) = r # requests_of es"
| "requests_of (_ # es) = requests_of es"


section \<open>\<open>PublicSubcorpListModel\<close>\<close>

record DataItem =
  di_ident :: string
  di_origName :: string
  di_corpname :: string
  di_description :: string
  di_userId :: int

record CorpusItem =
  ci_ident :: string
  ci_label :: string

record LoadDataResponse =
  ldr_data :: "DataItem list"
  ldr_corpora :: "CorpusItem list"

record PublicSubcorpListState =
  psl_isBusy :: bool
  psl_data :: "DataItem list"
  psl_corpora :: "CorpusItem list"
  psl_corpname :: string
  psl_codePrefix :: string

text \<open>
  An action: its type and its \<open>props\<close>. \<open>props['value']\<close> is the string of the two setter
  actions; \<open>props['data']\<close> is the server response of a finished load, absent (\<open>None\<close>) in the
  action that reports a failed load (\<open>props: {}\<close>).
\<close>

record ActionProps =
  props_value :: string
  props_data :: "LoadDataResponse option"

record ActionPayload =
  actionType :: string
  props :: ActionProps

definition SET_CORPUS_NAME :: string where "SET_CORPUS_NAME = ''PUBSUBC_SET_CORPUS_NAME''"
definition SET_CODE_PREFIX :: string where "SET_CODE_PREFIX = ''PUBSUBC_SET_CODE_PREFIX''"
definition DATA_LOAD_DONE :: string where "DATA_LOAD_DONE = ''PUBSUBC_DATA_LOAD_DONE''"
definition RESET_FILTER :: string where "RESET_FILTER = ''PUBSUBC_RESET_FILTER''"

datatype js_error = TypeError string | Error string

definition new_PublicSubcorpListModel :: "DataItem list \<Rightarrow> CorpusItem list \<Rightarrow> PublicSubcorpListState" where
  "new_PublicSubcorpListModel items corps =
     \<lparr> psl_isBusy = False, psl_data = items, psl_corpora = corps,
       psl_corpname = '''', psl_codePrefix = '''' \<rparr>"

text \<open>\<open>reduce\<close>: reading \<open>action.props['data']['data']\<close> of an action without \<open>data\<close> throws.\<close>

definition reduce :: "PublicSubcorpListState \<Rightarrow> ActionPayload \<Rightarrow> js_error + PublicSubcorpListState" where
  "reduce state action =
     (if actionType action = SET_CORPUS_NAME then
        Inr (state\<lparr> psl_isBusy := True, psl_corpname := props_value (props action) \<rparr>)
      else if actionType action = SET_CODE_PREFIX then
        Inr (state\<lparr> psl_isBusy := True, psl_codePrefix := props_value (props action) \<rparr>)
      else if actionType action = DATA_LOAD_DONE then
        (case props_data (props action) of
           None \<Rightarrow> Inl (TypeError ''cannot read property data of undefined'')
         | Some resp \<Rightarrow> Inr (state\<lparr> psl_isBusy := False, psl_data := ldr_data resp \<rparr>))
      else Inr state)"


section \<open>Numbers of the language\<close>

text \<open>
  A number is an IEEE 754 double: a rational that the format represents, an infinity, or
  \<open>NaN\<close>. An arithmetic operation computes the exact result and rounds it to the nearest
  double, ties to the even significand, which \<open>round_to_double\<close> does: 53 significant bits,
  exponents from -1022 (with the fixed step \<open>2^-1074\<close> below \<open>2^-1022\<close>) to 1023, an
  infinity when the rounded value reaches \<open>2^1024\<close>. The sign of a zero is not kept: no
  operation below divides by a negative zero.
\<close>

datatype jsnum = Fin rat | PosInf | NegInf | NaN

function ilog2 :: "int \<Rightarrow> int" where
  "ilog2 n = (if n < 2 then 0 else 1 + ilog2 (n div 2))"
  by pat_completeness auto
termination
  by (relation "measure nat") auto

declare ilog2.simps [simp del]

definition pow2 :: "int \<Rightarrow> rat" where
  "pow2 e = (if 0 \<le> e then 2 ^ nat e else 1 / 2 ^ nat (- e))"

text \<open>For \<open>x > 0\<close>, the exponent \<open>e\<close> with \<open>2^e \<le> x < 2^(e+1)\<close>.\<close>

definition floor_log2 :: "rat \<Rightarrow> int" where
  "floor_log2 x =
     (if 1 \<le> x then ilog2 \<lfloor>x\<rfloor>
      else - (1 + ilog2 (\<lceil>1 / x\<rceil> - 1)))"

definition round_half_even :: "rat \<Rightarrow> int" where
  "round_half_even x =
     (let f = \<lfloor>x\<rfloor>; d = x - of_int f
      in if d < 1 / 2 then f
         else if 1 / 2 < d then f + 1
         else if even f then f else f + 1)"

definition round_to_double :: "rat \<Rightarrow> jsnum" where
  "round_to_double x =
     (if x = 0 then Fin 0
      else
        (let e = max (floor_log2 \<bar>x\<bar>) (- 1022)
         in if 1023 < e then (if 0 < x then PosInf else NegInf)
            else
              (let q = pow2 (e - 52);
                   m = round_half_even (\<bar>x\<bar> / q)
               in if e = 1023 \<and> m = 2 ^ 53 then (if 0 < x then PosInf else NegInf)
                  else Fin (if 0 < x then of_int m * q else - (of_int m * q)))))"

fun js_neg :: "jsnum \<Rightarrow> jsnum" where
  "js_neg (Fin x) = Fin (- x)"
| "js_neg PosInf = NegInf"
| "js_neg NegInf = PosInf"
| "js_neg NaN = NaN"

fun js_add :: "jsnum \<Rightarrow> jsnum \<Rightarrow> jsnum" where
  "js_add (Fin x) (Fin y) = round_to_double (x + y)"
| "js_add NaN _ = NaN"
| "js_add _ NaN = NaN"
| "js_add PosInf NegInf = NaN"
| "js_add NegInf PosInf = NaN"
| "js_add PosInf _ = PosInf"
| "js_add NegInf _ = NegInf"
| "js_add _ PosInf = PosInf"
| "js_add _ NegInf = NegInf"

definition js_sub :: "jsnum \<Rightarrow> jsnum \<Rightarrow> jsnum" where
  "js_sub a b = js_add a (js_neg b)"

text \<open>The sign of a number: \<open>1\<close>, \<open>-1\<close>, or \<open>0\<close> for a zero; not used for \<open>NaN\<close>.\<close>

fun js_sign :: "jsnum \<Rightarrow> int" where
  "js_sign (Fin x) = (if 0 < x then 1 else if x < 0 then - 1 else 0)"
| "js_sign PosInf = 1"
| "js_sign NegInf = - 1"
| "js_sign NaN = 0"

fun js_mul :: "jsnum \<Rightarrow> jsnum \<Rightarrow> jsnum" where
  "js_mul (Fin x) (Fin y) = round_to_double (x * y)"
| "js_mul NaN _ = NaN"
| "js_mul _ NaN = NaN"
| "js_mul a b =
     (if js_sign a * js_sign b = 0 then NaN
      else if 0 < js_sign a * js_sign b then PosInf else NegInf)"

fun js_div :: "jsnum \<Rightarrow> jsnum \<Rightarrow> jsnum" where
  "js_div (Fin x) (Fin y) =
     (if y = 0 then (if x = 0 then NaN else if 0 < x then PosInf else NegInf)
      else round_to_double (x / y))"
| "js_div NaN _ = NaN"
| "js_div _ NaN = NaN"
| "js_div (Fin x) _ = Fin 0"
| "js_div a (Fin y) = (if 0 < js_sign a * (if y < 0 then - 1 else 1) then PosInf else NegInf)"
| "js_div _ _ = NaN"

text \<open>\<open>Math.round\<close>: the nearest integer, a tie going up.\<close>

fun Math_round :: "jsnum \<Rightarrow> jsnum" where
  "Math_round (Fin x) = Fin (of_int \<lfloor>x + 1 / 2\<rfloor>)"
| "Math_round a = a"

definition of_number :: "int \<Rightarrow> jsnum" where
  "of_number n = round_to_double (of_int n)"


subsection \<open>Numbers and strings\<close>

definition digit_char :: "int \<Rightarrow> char" where
  "digit_char d = char_of (48 + d)"

function digits_of :: "int \<Rightarrow> string" where
  "digits_of n = (if n < 10 then [digit_char n] else digits_of (n div 10) @ [digit_char (n mod 10)])"
  by pat_completeness auto
termination
  by (relation "measure nat") auto

declare digits_of.simps [simp del]

text \<open>
  \<open>x.toFixed(1)\<close>: for a finite \<open>x\<close> below \<open>10^21\<close>, the integer \<open>n\<close> with \<open>n / 10\<close> nearest to the
  exact value of \<open>\<bar>x\<bar>\<close> (the larger one of two), written with a point before its last digit, and
  a minus sign for a negative \<open>x\<close>. From \<open>10^21\<close> on the language writes an exponent instead;
  the numbers written below are ratios, far from it.
\<close>

fun toFixed1 :: "jsnum \<Rightarrow> string" where
  "toFixed1 NaN = ''NaN''"
| "toFixed1 PosInf = ''Infinity''"
| "toFixed1 NegInf = ''-Infinity''"
| "toFixed1 (Fin x) =
     (let n = \<lfloor>\<bar>x\<bar> * 10 + 1 / 2\<rfloor>;
          m = (if n < 10 then ''0'' @ digits_of n else digits_of n)
      in (if x < 0 then ''-'' else '''') @ butlast m @ ''.'' @ [last m])"

definition is_digit :: "char \<Rightarrow> bool" where
  "is_digit c = (48 \<le> (of_char c :: nat) \<and> (of_char c :: nat) \<le> 57)"

definition is_white_space :: "char \<Rightarrow> bool" where
  "is_white_space c = ((of_char c :: nat) \<in> {9, 10, 11, 12, 13, 32})"

definition digits_value :: "string \<Rightarrow> int" where
  "digits_value ds = foldl (\<lambda>acc c. 10 * acc + ((of_char c :: int) - 48)) 0 ds"

text \<open>
  The exponent part at the head of a string, \<open>e\<close> or \<open>E\<close>, a sign or none, and digits; 0 when
  the string does not start with one.
\<close>

definition exponent_part :: "string \<Rightarrow> int" where
  "exponent_part s =
     (case s of
        [] \<Rightarrow> 0
      | c # r \<Rightarrow>
          if c = CHR ''e'' \<or> c = CHR ''E'' then
            (case r of
               [] \<Rightarrow> 0
             | d # r' \<Rightarrow>
                 if d = CHR ''-'' then - digits_value (takeWhile is_digit r')
                 else if d = CHR ''+'' then digits_value (takeWhile is_digit r')
                 else digits_value (takeWhile is_digit r))
          else 0)"

text \<open>
  The longest prefix of a string that is a decimal literal, after the white space at its
  head, read as an exact number: a sign or none, then \<open>Infinity\<close>, or digits with a
  fraction or without, or a point and digits, and an exponent part or none. \<open>None\<close> when no
  prefix is a literal.
\<close>

definition decimal_prefix :: "string \<Rightarrow> (bool + rat) option" where
  "decimal_prefix s =
     (let s1 = dropWhile is_white_space s;
          negative = (s1 \<noteq> [] \<and> hd s1 = CHR ''-'');
          s2 = (if s1 \<noteq> [] \<and> (hd s1 = CHR ''-'' \<or> hd s1 = CHR ''+'') then tl s1 else s1)
      in if take 8 s2 = ''Infinity'' then Some (Inl negative)
         else
           (let ip = takeWhile is_digit s2;
                r1 = dropWhile is_digit s2;
                has_point = (r1 \<noteq> [] \<and> hd r1 = CHR ''.'');
                fp = (if has_point then takeWhile is_digit (tl r1) else []);
                r2 = (if has_point then dropWhile is_digit (tl r1) else r1)
            in if ip = [] \<and> fp = [] then None
               else
                 (let mantissa = of_int (digits_value (ip @ fp)) / 10 ^ length fp;
                      ex = exponent_part r2;
                      v = (if 0 \<le> ex then mantissa * 10 ^ nat ex else mantissa / 10 ^ nat (- ex))
                  in Some (Inr (if negative then - v else v)))))"

definition parseFloat :: "string \<Rightarrow> jsnum" where
  "parseFloat s =
     (case decimal_prefix s of
        None \<Rightarrow> NaN
      | Some (Inl negative) \<Rightarrow> (if negative then NegInf else PosInf)
      | Some (Inr v) \<Rightarrow> round_to_double v)"

text \<open>A string taken as the exact decimal number it writes; \<open>None\<close> when it writes none.\<close>

definition decimal_value :: "string \<Rightarrow> rat option" where
  "decimal_value s = (case decimal_prefix s of Some (Inr v) \<Rightarrow> Some v | _ \<Rightarrow> None)"


section \<open>The plug-in API\<close>

text \<open>
  What the models use of \<open>pluginApi\<close>: the translation of a message key with its arguments,
  the formatting of a number, the identifier of the corpus and the URL of an action.
\<close>

datatype message_arg = StrArg string | NumArg int

record PluginApi =
  translate :: "string \<Rightarrow> (string \<times> message_arg) list \<Rightarrow> string"
  formatNumber :: "jsnum \<Rightarrow> string"
  getCorpusIdent_id :: string
  createActionUrl :: "string \<Rightarrow> string"

subsection \<open>\<open>PublicSubcorpListModel.loadData\<close>\<close>

text \<open>
  The request of \<open>loadData\<close>, sent to the URL that the page model makes of the action
  \<open>subcorpus/list_published\<close>; offset and limit are the constants 0 and 20.
\<close>

definition loadData :: "PluginApi \<Rightarrow> PublicSubcorpListState \<Rightarrow> request" where
  "loadData pageModel state =
     \<lparr> req_method = GET, req_url = createActionUrl pageModel ''subcorpus/list_published'',
       req_args = [(''format'', ''json''), (''corpname'', psl_corpname state),
                   (''code_prefix'', psl_codePrefix state), (''offset'', ''0''), (''limit'', ''20'')] \<rparr>"



section \<open>\<open>TextTypesModel\<close>: data\<close>

text \<open>
  A value of a text type attribute (\<open>TextTypes.AttributeValue\<close>), with the fields the model
  reads and writes. \<open>availItems\<close> and \<open>extendedInfo\<close> are optional (\<open>None\<close> is \<open>undefined\<close>).
\<close>

datatype info_value = InfoStr string | InfoNum int

type_synonym ext_info = "(string \<times> info_value) list"

record AttributeValue =
  av_ident :: string
  av_value :: string
  av_selected :: bool
  av_locked :: bool
  av_numGrouped :: int
  av_availItems :: "int option"
  av_extendedInfo :: "ext_info option"

record AutoCompleteItem =
  aci_ident :: string
  aci_label :: string

record AttrInfo =
  ai_doc :: string
  ai_docLabel :: string

record AttrSummary =
  as_text :: string
  as_help :: "string option"

record SelectionFilterValue =
  sfv_ident :: string
  sfv_v :: string
  sfv_lock :: bool
  sfv_numGrouped :: int
  sfv_availItems :: "int option"

type_synonym SelectionFilterMap = "(string \<times> SelectionFilterValue list) list"

text \<open>
  The values that an action carries under the keys \<open>data\<close> and \<open>value\<close>. They are stored, or
  handed to the attribute's methods, as they come.
\<close>

datatype payload_data =
    NoData
  | ExtendedInfoData ext_info
  | AutoCompleteData "AutoCompleteItem list"
  | FilterData SelectionFilterMap

datatype payload_value = NoValue | TextValue string | SummaryValue AttrSummary

text \<open>
  The classes \<open>TextInputAttributeSelection\<close> and \<open>FullAttributeSelection\<close> live in the module
  \<open>./valueSelections\<close>, which is not among the sources. An attribute selection is therefore
  a value of an arbitrary type \<open>'a\<close>, and the constructors, the property \<open>name\<close>, the
  \<open>instanceof TextInputAttributeSelection\<close> test and the methods the model calls are
  parameters. A mapping function may return \<open>null\<close> (\<open>None\<close>), as the one of
  \<open>filterWholeSelection\<close> does.
\<close>

record 'a ValueSelections =
  new_TextInputAttributeSelection ::
    "string \<Rightarrow> string \<Rightarrow> bool \<Rightarrow> bool \<Rightarrow> AttrInfo \<Rightarrow> string
       \<Rightarrow> AttributeValue list \<Rightarrow> AutoCompleteItem list \<Rightarrow> 'a"
  new_FullAttributeSelection ::
    "string \<Rightarrow> string \<Rightarrow> bool \<Rightarrow> bool \<Rightarrow> AttrInfo \<Rightarrow> AttributeValue list \<Rightarrow> 'a"
  attr_name :: "'a \<Rightarrow> string"
  attr_isTextInput :: "'a \<Rightarrow> bool"
  attr_containsFullList :: "'a \<Rightarrow> bool"
  attr_getValues :: "'a \<Rightarrow> AttributeValue list"
  attr_mapValues :: "(AttributeValue \<Rightarrow> nat \<Rightarrow> AttributeValue option) \<Rightarrow> 'a \<Rightarrow> 'a"
  attr_filter :: "(AttributeValue option \<Rightarrow> bool) \<Rightarrow> 'a \<Rightarrow> 'a"
  attr_toggleValueSelection :: "int \<Rightarrow> 'a \<Rightarrow> 'a"
  attr_hasUserChanges :: "'a \<Rightarrow> bool"
  attr_isLocked :: "'a \<Rightarrow> bool"
  attr_setExtendedInfo :: "string \<Rightarrow> ext_info option \<Rightarrow> 'a \<Rightarrow> 'a"
  attr_addValue :: "AttributeValue \<Rightarrow> 'a \<Rightarrow> 'a"
  attr_clearValues :: "'a \<Rightarrow> 'a"
  attr_resetAutoComplete :: "'a \<Rightarrow> 'a"
  attr_setTextFieldValue :: "payload_value \<Rightarrow> 'a \<Rightarrow> 'a"
  attr_setAutoComplete :: "payload_data \<Rightarrow> 'a \<Rightarrow> 'a"
  attr_updateItems :: "string list \<Rightarrow> 'a \<Rightarrow> 'a"

text \<open>
  What the model gets from outside: the attribute classes, \<open>pluginApi\<close>, and the
  range modes that the range selector (module \<open>./rangeSelector\<close>, not among the sources)
  reports at the moment of the action.
\<close>

record 'a environment =
  vs :: "'a ValueSelections"
  pluginApi :: PluginApi
  getRangeModes :: "string \<rightharpoonup> bool"

text \<open>Server-side data of the text types form.\<close>

record BlockLineValue =
  blv_v :: string
  blv_xcnt :: "int option"

record BlockLine =
  bl_Values :: "BlockLineValue list option"
  bl_textboxlength :: "int option"
  bl_attr_doc :: string
  bl_attr_doc_label :: string
  bl_is_interval :: int
  bl_label :: string
  bl_name :: string
  bl_numeric :: bool

record Block =
  Line :: "BlockLine list"

record InitialData =
  Blocks :: "Block list"
  bib_attr :: string
  id_attr :: string

type_synonym SelectedTextTypes = "string \<rightharpoonup> string list"

text \<open>
  The state. \<open>attributes\<close> is \<open>None\<close> when it holds \<open>undefined\<close>, which \<open>last()\<close> and
  \<open>first()\<close> of an empty history return; a snapshot of such a state is \<open>None\<close> too.
\<close>

record 'a TextTypesModelState =
  attributes :: "'a list option"
  bibLabelAttr :: string
  bibIdAttr :: string
  selectionHistory :: "'a list option list"
  selectAll :: "string \<rightharpoonup> bool"
  metaInfo :: "string \<rightharpoonup> payload_value"
  minimizedBoxes :: "string \<rightharpoonup> bool"
  textInputPlaceholder :: "string option"
  isBusy :: bool
  autoCompleteSupport :: bool
  hasSelectedItems :: bool

text \<open>
  An action. The payload is read at the types that the receiving methods declare. The four
  keys of a range request are optional: an action that reaches that code without them
  passes \<open>undefined\<close> (\<open>None\<close>).
\<close>

record Payload =
  p_attrName :: string
  p_itemIdx :: int
  p_fromVal :: "int option"
  p_toVal :: "int option"
  p_strictInterval :: "bool option"
  p_keepCurrent :: "bool option"
  p_ident :: string
  p_label :: string
  p_append :: bool
  p_data :: payload_data
  p_value :: payload_value

record Action =
  action_name :: string
  payload :: Payload

text \<open>
  What an action does besides changing the state: it emits a change, dispatches
  \<open>TT_SELECTION_CHANGED\<close> with the attributes and the flag, or calls the range selector.
\<close>

datatype 'a tt_effect =
    EmitChange
  | Dispatch_TT_SELECTION_CHANGED "'a list" bool
  | RangeSelector_applyRange string "int option" "int option" "bool option" "bool option"
  | RangeSelector_setRangeMode string bool

text \<open>
  A step of the model: the state after it, what it did, and the exception it threw, if any.
  The state is mutated in place, so the changes made before an exception stay.
\<close>

type_synonym 'a outcome = "'a TextTypesModelState \<times> 'a tt_effect list \<times> js_error option"

type_synonym 'a step = "'a TextTypesModelState \<Rightarrow> 'a outcome"

definition nothing :: "'a step" where
  "nothing st = (st, [], None)"

definition throw :: "js_error \<Rightarrow> 'a step" where
  "throw e st = (st, [], Some e)"

definition emitChange :: "'a step" where
  "emitChange st = (st, [EmitChange], None)"

definition assign :: "('a TextTypesModelState \<Rightarrow> 'a TextTypesModelState) \<Rightarrow> 'a step" where
  "assign f st = (f st, [], None)"

text \<open>Statements one after the other; an exception ends the sequence.\<close>

fun seq :: "'a step list \<Rightarrow> 'a step" where
  "seq [] st = (st, [], None)"
| "seq (f # fs) st =
     (case f st of
        (st1, es1, Some e) \<Rightarrow> (st1, es1, Some e)
      | (st1, es1, None) \<Rightarrow> (case seq fs st1 of (st2, es2, r) \<Rightarrow> (st2, es1 @ es2, r)))"


section \<open>\<open>TextTypesModel\<close>: construction\<close>

definition typeIsSelected :: "SelectedTextTypes \<Rightarrow> string \<Rightarrow> string \<Rightarrow> bool" where
  "typeIsSelected data attr v = (case data attr of Some vals \<Rightarrow> v \<in> set vals | None \<Rightarrow> False)"

text \<open>The callback of \<open>mergedBlocks.map\<close>: a text input box when \<open>textboxlength\<close> is truthy,
  a full list of the \<open>Values\<close> otherwise (reading \<open>Values\<close> of a line without them throws).\<close>

definition importBlockLine ::
  "'a ValueSelections \<Rightarrow> SelectedTextTypes \<Rightarrow> BlockLine \<Rightarrow> js_error + 'a" where
  "importBlockLine cls selectedItems attrItem =
     (if bl_textboxlength attrItem \<noteq> None \<and> bl_textboxlength attrItem \<noteq> Some 0 then
        Inr (new_TextInputAttributeSelection cls (bl_name attrItem) (bl_label attrItem)
               (bl_numeric attrItem) (bl_is_interval attrItem \<noteq> 0)
               \<lparr> ai_doc = bl_attr_doc attrItem, ai_docLabel = bl_attr_doc_label attrItem \<rparr>
               '''' [] [])
      else
        (case bl_Values attrItem of
           None \<Rightarrow> Inl (TypeError ''cannot read property map of undefined'')
         | Some vals \<Rightarrow>
             Inr (new_FullAttributeSelection cls (bl_name attrItem) (bl_label attrItem)
                    (bl_numeric attrItem) (bl_is_interval attrItem \<noteq> 0)
                    \<lparr> ai_doc = bl_attr_doc attrItem, ai_docLabel = bl_attr_doc_label attrItem \<rparr>
                    (map (\<lambda>valItem.
                            \<lparr> av_ident = blv_v valItem,
                              av_value = blv_v valItem,
                              av_selected = typeIsSelected selectedItems (bl_name attrItem) (blv_v valItem),
                              av_locked = False,
                              av_numGrouped = 1,
                              av_availItems = blv_xcnt valItem,
                              av_extendedInfo = None \<rparr>)
                         vals))))"

fun map_throwing :: "('b \<Rightarrow> js_error + 'c) \<Rightarrow> 'b list \<Rightarrow> js_error + 'c list" where
  "map_throwing f [] = Inr []"
| "map_throwing f (x # xs) =
     (case f x of
        Inl e \<Rightarrow> Inl e
      | Inr y \<Rightarrow> (case map_throwing f xs of Inl e \<Rightarrow> Inl e | Inr ys \<Rightarrow> Inr (y # ys)))"

text \<open>\<open>importInitialData\<close> returns \<open>null\<close> (\<open>None\<close>) when the blocks hold no line.\<close>

definition importInitialData ::
  "'a ValueSelections \<Rightarrow> InitialData \<Rightarrow> SelectedTextTypes \<Rightarrow> js_error + 'a list option" where
  "importInitialData cls data selectedItems =
     (let mergedBlocks = foldl (\<lambda>prev curr. prev @ Line curr) [] (Blocks data)
      in if length mergedBlocks > 0 then
           (case map_throwing (importBlockLine cls selectedItems) mergedBlocks of
              Inl e \<Rightarrow> Inl e
            | Inr attrs \<Rightarrow> Inr (Some attrs))
         else Inr None)"

text \<open>
  The constructor. With \<open>attributes\<close> being \<open>null\<close>, \<open>attributes.map\<close> in the initial value of
  \<open>selectAll\<close> throws. A later pair of a list of pairs overrides an earlier one with the same
  key.
\<close>

definition new_TextTypesModel ::
  "'a ValueSelections \<Rightarrow> InitialData \<Rightarrow> SelectedTextTypes option
     \<Rightarrow> js_error + 'a TextTypesModelState" where
  "new_TextTypesModel cls data selectedItems =
     (case importInitialData cls data (case selectedItems of None \<Rightarrow> Map.empty | Some m \<Rightarrow> m) of
        Inl e \<Rightarrow> Inl e
      | Inr None \<Rightarrow> Inl (TypeError ''cannot read property map of null'')
      | Inr (Some attrs) \<Rightarrow>
          Inr \<lparr> attributes = Some attrs,
                bibLabelAttr = bib_attr data,
                bibIdAttr = id_attr data,
                selectionHistory = [] @ [Some attrs],
                selectAll = map_of (rev (map (\<lambda>item. (attr_name cls item, False)) attrs)),
                metaInfo = Map.empty,
                minimizedBoxes = map_of (rev (map (\<lambda>v. (attr_name cls v, False)) attrs)),
                textInputPlaceholder = None,
                isBusy = False,
                autoCompleteSupport = False,
                hasSelectedItems = False \<rparr>)"


section \<open>\<open>TextTypesModel\<close>: methods\<close>

text \<open>Reading \<open>this.state.attributes\<close> for a method call on it: \<open>undefined\<close> throws.\<close>

definition with_attributes :: "('a list \<Rightarrow> 'a step) \<Rightarrow> 'a step" where
  "with_attributes f st =
     (case attributes st of
        None \<Rightarrow> (st, [], Some (TypeError ''this.state.attributes is undefined''))
      | Some attrs \<Rightarrow> f attrs st)"

definition getAttribute :: "'a ValueSelections \<Rightarrow> 'a list \<Rightarrow> string \<Rightarrow> 'a option" where
  "getAttribute cls attrs ident = find (\<lambda>val. attr_name cls val = ident) attrs"

definition getTextInputAttribute :: "'a ValueSelections \<Rightarrow> 'a list \<Rightarrow> string \<Rightarrow> 'a option" where
  "getTextInputAttribute cls attrs ident =
     (case find (\<lambda>val. attr_name cls val = ident) attrs of
        Some ans \<Rightarrow> if attr_isTextInput cls ans then Some ans else None
      | None \<Rightarrow> None)"

fun findIndex :: "('b \<Rightarrow> bool) \<Rightarrow> 'b list \<Rightarrow> int" where
  "findIndex P [] = -1"
| "findIndex P (x # xs) =
     (if P x then 0 else (let i = findIndex P xs in if i < 0 then -1 else i + 1))"

text \<open>
  \<open>this.state.attributes.indexOf(attr)\<close>, for an \<open>attr\<close> that one of the two getters above
  returned: the position of that object, which is the first attribute of its name, and -1
  for \<open>undefined\<close>.
\<close>

definition indexOf :: "'a ValueSelections \<Rightarrow> 'a list \<Rightarrow> 'a option \<Rightarrow> int" where
  "indexOf cls attrs attr =
     (case attr of
        None \<Rightarrow> -1
      | Some a \<Rightarrow> findIndex (\<lambda>val. attr_name cls val = attr_name cls a) attrs)"

text \<open>\<open>list.set(idx, v)\<close>. Every call below has \<open>idx\<close> inside the list, the guard on the
  attribute comes first; outside the list nothing is written here.\<close>

definition set_at :: "'b list \<Rightarrow> int \<Rightarrow> 'b \<Rightarrow> 'b list" where
  "set_at xs idx v = (if 0 \<le> idx \<and> idx < int (length xs) then xs[nat idx := v] else xs)"

definition findHasSelectedItems :: "'a ValueSelections \<Rightarrow> 'a list \<Rightarrow> bool" where
  "findHasSelectedItems cls attrs = list_ex (attr_hasUserChanges cls) attrs"

definition notifySelectionChange :: "'a ValueSelections \<Rightarrow> 'a step" where
  "notifySelectionChange cls =
     with_attributes (\<lambda>attrs st.
       (st, [Dispatch_TT_SELECTION_CHANGED attrs (findHasSelectedItems cls attrs)], None))"

definition changeValueSelection :: "'a ValueSelections \<Rightarrow> string \<Rightarrow> int \<Rightarrow> 'a step" where
  "changeValueSelection cls attrIdent itemIdx =
     with_attributes (\<lambda>attrs.
       (case getAttribute cls attrs attrIdent of
          Some attr \<Rightarrow>
            (let idx = indexOf cls attrs (Some attr);
                 attrs' = set_at attrs idx (attr_toggleValueSelection cls itemIdx attr)
             in seq [assign (\<lambda>st. st\<lparr> attributes := Some attrs' \<rparr>),
                     assign (\<lambda>st. st\<lparr> hasSelectedItems := findHasSelectedItems cls attrs' \<rparr>),
                     emitChange])
        | None \<Rightarrow> throw (Error (''no such attribute value: '' @ attrIdent))))"

definition applyRange ::
  "string \<Rightarrow> int option \<Rightarrow> int option \<Rightarrow> bool option \<Rightarrow> bool option \<Rightarrow> 'a step" where
  "applyRange attrName fromVal toVal strictInterval keepCurrent st =
     (st, [RangeSelector_applyRange attrName fromVal toVal strictInterval keepCurrent], None)"

definition applySelectAll :: "'a ValueSelections \<Rightarrow> string \<Rightarrow> 'a step" where
  "applySelectAll cls ident =
     with_attributes (\<lambda>attrs st.
       (case getAttribute cls attrs ident of
          None \<Rightarrow> throw (TypeError ''cannot read property containsFullList of undefined'') st
        | Some item \<Rightarrow>
            (let idx = indexOf cls attrs (Some item)
             in if attr_containsFullList cls item then
                  (let newVal = (selectAll st ident \<noteq> Some True);
                       attrs' = set_at attrs idx
                                  (attr_mapValues cls
                                     (\<lambda>item i. Some \<lparr> av_ident = av_ident item,
                                                      av_value = av_value item,
                                                      av_selected = newVal,
                                                      av_locked = av_locked item,
                                                      av_numGrouped = av_numGrouped item,
                                                      av_availItems = av_availItems item,
                                                      av_extendedInfo = None \<rparr>)
                                     item)
                   in emitChange (st\<lparr> selectAll := (selectAll st)(ident \<mapsto> newVal),
                                       attributes := Some attrs',
                                       hasSelectedItems := findHasSelectedItems cls attrs' \<rparr>))
                else nothing st)))"

definition setExtendedInfo :: "'a ValueSelections \<Rightarrow> string \<Rightarrow> string \<Rightarrow> ext_info option \<Rightarrow> 'a step" where
  "setExtendedInfo cls attrName ident data =
     with_attributes (\<lambda>attrs.
       (let attr = getAttribute cls attrs attrName
        in if attrName \<noteq> '''' then
             (case attr of
                None \<Rightarrow> throw (TypeError ''cannot read property setExtendedInfo of undefined'')
              | Some a \<Rightarrow>
                  assign (\<lambda>st. st\<lparr> attributes :=
                    Some (set_at attrs (indexOf cls attrs attr) (attr_setExtendedInfo cls ident data a)) \<rparr>))
           else throw (Error (''Failed to find attribute '' @ attrName))))"

definition clearExtendedInfo :: "'a ValueSelections \<Rightarrow> string \<Rightarrow> string \<Rightarrow> 'a step" where
  "clearExtendedInfo cls attrName ident =
     with_attributes (\<lambda>attrs.
       (case getAttribute cls attrs attrName of
          Some attr \<Rightarrow>
            assign (\<lambda>st. st\<lparr> attributes :=
              Some (set_at attrs (indexOf cls attrs (Some attr)) (attr_setExtendedInfo cls ident None attr)) \<rparr>)
        | None \<Rightarrow> throw (Error (''Attribute not found: '' @ attrName))))"

definition resetAutoComplete :: "'a ValueSelections \<Rightarrow> string \<Rightarrow> 'a step" where
  "resetAutoComplete cls attrName =
     with_attributes (\<lambda>attrs.
       (case getTextInputAttribute cls attrs attrName of
          Some attr \<Rightarrow>
            assign (\<lambda>st. st\<lparr> attributes :=
              Some (set_at attrs (indexOf cls attrs (Some attr)) (attr_resetAutoComplete cls attr)) \<rparr>)
        | None \<Rightarrow> nothing))"

definition handleAttrTextInputChange :: "'a ValueSelections \<Rightarrow> string \<Rightarrow> payload_value \<Rightarrow> 'a step" where
  "handleAttrTextInputChange cls attrName v =
     with_attributes (\<lambda>attrs.
       (case getTextInputAttribute cls attrs attrName of
          Some attr \<Rightarrow>
            assign (\<lambda>st. st\<lparr> attributes :=
              Some (set_at attrs (indexOf cls attrs (Some attr)) (attr_setTextFieldValue cls v attr)) \<rparr>)
        | None \<Rightarrow> nothing))"

definition setTextInputAttrValue ::
  "'a ValueSelections \<Rightarrow> string \<Rightarrow> string \<Rightarrow> string \<Rightarrow> bool \<Rightarrow> 'a step" where
  "setTextInputAttrValue cls attrName ident label append' =
     with_attributes (\<lambda>attrs.
       (let attr = getTextInputAttribute cls attrs attrName;
            idx = indexOf cls attrs attr;
            newVal = \<lparr> av_ident = ident, av_value = label, av_selected = True, av_locked = False,
                       av_numGrouped = 1, av_availItems = None, av_extendedInfo = None \<rparr>
        in case attr of
             None \<Rightarrow> throw (TypeError ''cannot read property addValue of undefined'')
           | Some a \<Rightarrow>
               (let updatedAttr = (if append' then attr_addValue cls newVal a
                                   else attr_addValue cls newVal (attr_clearValues cls a))
                in assign (\<lambda>st. st\<lparr> attributes := Some (set_at attrs idx updatedAttr) \<rparr>))))"

definition setAutoComplete :: "'a ValueSelections \<Rightarrow> string \<Rightarrow> payload_data \<Rightarrow> 'a step" where
  "setAutoComplete cls attrName vals =
     with_attributes (\<lambda>attrs.
       (case getTextInputAttribute cls attrs attrName of
          Some attr \<Rightarrow>
            assign (\<lambda>st. st\<lparr> attributes :=
              Some (set_at attrs (indexOf cls attrs (Some attr)) (attr_setAutoComplete cls vals attr)) \<rparr>)
        | None \<Rightarrow> nothing))"

definition updateItems :: "'a ValueSelections \<Rightarrow> string \<Rightarrow> string list \<Rightarrow> 'a step" where
  "updateItems cls attrName items =
     with_attributes (\<lambda>attrs.
       (case getAttribute cls attrs attrName of
          Some attr \<Rightarrow>
            assign (\<lambda>st. st\<lparr> attributes :=
              Some (set_at attrs (indexOf cls attrs (Some attr)) (attr_updateItems cls items attr)) \<rparr>)
        | None \<Rightarrow> nothing))"

definition filter_attr ::
  "'a ValueSelections \<Rightarrow> string \<Rightarrow> (AttributeValue option \<Rightarrow> bool) \<Rightarrow> 'a step" where
  "filter_attr cls attrName fn =
     with_attributes (\<lambda>attrs.
       (case getAttribute cls attrs attrName of
          Some attr \<Rightarrow>
            assign (\<lambda>st. st\<lparr> attributes :=
              Some (set_at attrs (indexOf cls attrs (Some attr)) (attr_filter cls fn attr)) \<rparr>)
        | None \<Rightarrow> nothing))"

definition mapItems ::
  "'a ValueSelections \<Rightarrow> string \<Rightarrow> (AttributeValue \<Rightarrow> nat \<Rightarrow> AttributeValue option) \<Rightarrow> 'a step" where
  "mapItems cls attrName mapFn =
     with_attributes (\<lambda>attrs.
       (case getAttribute cls attrs attrName of
          Some attr \<Rightarrow>
            assign (\<lambda>st. st\<lparr> attributes :=
              Some (set_at attrs (indexOf cls attrs (Some attr)) (attr_mapValues cls mapFn attr)) \<rparr>)
        | None \<Rightarrow> nothing))"

text \<open>One round of the loop of \<open>filterWholeSelection\<close>, for the key \<open>k\<close> and its list.\<close>

definition filterWholeSelection_key ::
  "'a ValueSelections \<Rightarrow> string \<times> SelectionFilterValue list \<Rightarrow> 'a step" where
  "filterWholeSelection_key cls entry =
     (case entry of (k, items) \<Rightarrow>
        seq [updateItems cls k (map sfv_ident items),
             mapItems cls k
               (\<lambda>v i. if i < length items then
                         Some \<lparr> av_ident = sfv_ident (items ! i),
                                av_value = sfv_v (items ! i),
                                av_selected = av_selected v,
                                av_locked = av_locked v,
                                av_numGrouped = sfv_numGrouped (items ! i),
                                av_availItems = sfv_availItems (items ! i),
                                av_extendedInfo = av_extendedInfo v \<rparr>
                       else None),
             filter_attr cls k (\<lambda>item. item \<noteq> None)])"

text \<open>
  \<open>filterWholeSelection\<close>: \<open>for (k in filterData)\<close>. Over \<open>undefined\<close>, an empty object or an
  empty array the loop does not run; for a key of anything that is not a filter map,
  \<open>filterData[k].map\<close> is not a function.
\<close>

definition filterWholeSelection :: "'a ValueSelections \<Rightarrow> payload_data \<Rightarrow> 'a step" where
  "filterWholeSelection cls filterData =
     (case filterData of
        FilterData fd \<Rightarrow> seq (map (filterWholeSelection_key cls) fd)
      | NoData \<Rightarrow> nothing
      | ExtendedInfoData m \<Rightarrow>
          (if m = [] then nothing else throw (TypeError ''filterData[k].map is not a function''))
      | AutoCompleteData xs \<Rightarrow>
          (if xs = [] then nothing else throw (TypeError ''filterData[k].map is not a function'')))"

definition getAttributesWithSelectedItems :: "'a ValueSelections \<Rightarrow> 'a list \<Rightarrow> bool \<Rightarrow> string list" where
  "getAttributesWithSelectedItems cls attrs includeLocked =
     map (attr_name cls)
       (filter (\<lambda>item. attr_hasUserChanges cls item \<and> (\<not> attr_isLocked cls item \<or> includeLocked)) attrs)"

definition reset :: "'a step" where
  "reset = seq [
     assign (\<lambda>st. st\<lparr> attributes := (case selectionHistory st of [] \<Rightarrow> None | first # _ \<Rightarrow> first) \<rparr>),
     assign (\<lambda>st. st\<lparr> selectionHistory := take 1 (selectionHistory st) \<rparr>),
     assign (\<lambda>st. st\<lparr> selectAll := (\<lambda>k. map_option (\<lambda>item. False) (selectAll st k)) \<rparr>),
     assign (\<lambda>st. st\<lparr> metaInfo := Map.empty \<rparr>),
     assign (\<lambda>st. st\<lparr> hasSelectedItems := False \<rparr>)]"

definition canUndoState :: "'a TextTypesModelState \<Rightarrow> bool" where
  "canUndoState st = (length (selectionHistory st) > 1)"

text \<open>The body of the case \<open>TT_EXTENDED_INFORMATION_REQUEST\<close>.\<close>

definition extendedInformationRequest :: "'a environment \<Rightarrow> string \<Rightarrow> string \<Rightarrow> 'a step" where
  "extendedInformationRequest env attrName ident =
     seq [assign (\<lambda>st. st\<lparr> isBusy := True \<rparr>),
          with_attributes (\<lambda>attrs.
            (case getAttribute (vs env) attrs attrName of
               None \<Rightarrow> throw (TypeError ''cannot read property getValues of undefined'')
             | Some attr \<Rightarrow>
                 (let attrIdx = indexOf (vs env) attrs (Some attr);
                      vals = attr_getValues (vs env) attr;
                      srchIdx = findIndex (\<lambda>v. av_ident v = ident) vals
                  in if srchIdx > -1 \<and> av_numGrouped (vals ! nat srchIdx) < 2 then
                       seq [assign (\<lambda>st. st\<lparr> attributes := Some (set_at attrs attrIdx
                              (attr_mapValues (vs env)
                                 (\<lambda>item i. Some \<lparr> av_ident = av_ident item,
                                                  av_value = av_value item,
                                                  av_selected = av_selected item,
                                                  av_locked = av_locked item,
                                                  av_numGrouped = av_numGrouped item,
                                                  av_availItems = av_availItems item,
                                                  av_extendedInfo = None \<rparr>)
                                 attr)) \<rparr>),
                            emitChange]
                     else if srchIdx > -1 then
                       (let message = translate (pluginApi env)
                                        ''query__tt_multiple_items_same_name_{num_items}''
                                        [(''num_items'', NumArg (av_numGrouped (vals ! nat srchIdx)))]
                        in seq [setExtendedInfo (vs env) (attr_name (vs env) attr) ident
                                  (Some [(''__message__'', InfoStr message)]),
                                emitChange])
                     else nothing)))]"

text \<open>\<open>Immutable.OrderedMap(action.payload['data'])\<close>: the map of the data, empty without them.\<close>

definition OrderedMap :: "payload_data \<Rightarrow> ext_info" where
  "OrderedMap d = (case d of ExtendedInfoData m \<Rightarrow> m | _ \<Rightarrow> [])"


section \<open>\<open>TextTypesModel.onAction\<close>\<close>

text \<open>
  The \<open>switch\<close> over the name of the action, case by case in the order of the source. The
  case \<open>TT_SELECT_ALL_CHECKBOX_CLICKED\<close> has no \<open>break\<close>: its two statements are followed by
  those of \<open>TT_RANGE_BUTTON_CLICKED\<close>.
\<close>

definition onAction :: "'a environment \<Rightarrow> Action \<Rightarrow> 'a step" where
  "onAction env action =
     (let name = action_name action; pl = payload action; cls = vs env
      in if name = ''TT_VALUE_CHECKBOX_CLICKED'' then
           seq [changeValueSelection cls (p_attrName pl) (p_itemIdx pl),
                notifySelectionChange cls]
         else if name = ''TT_SELECT_ALL_CHECKBOX_CLICKED'' then
           seq [applySelectAll cls (p_attrName pl),
                notifySelectionChange cls,
                applyRange (p_attrName pl) (p_fromVal pl) (p_toVal pl)
                  (p_strictInterval pl) (p_keepCurrent pl),
                notifySelectionChange cls]
         else if name = ''TT_RANGE_BUTTON_CLICKED'' then
           seq [applyRange (p_attrName pl) (p_fromVal pl) (p_toVal pl)
                  (p_strictInterval pl) (p_keepCurrent pl),
                notifySelectionChange cls]
         else if name = ''TT_TOGGLE_RANGE_MODE'' then
           seq [(\<lambda>st. (st, [RangeSelector_setRangeMode (p_attrName pl)
                                (getRangeModes env (p_attrName pl) \<noteq> Some True)], None)),
                emitChange]
         else if name = ''TT_EXTENDED_INFORMATION_REQUEST'' then
           extendedInformationRequest env (p_attrName pl) (p_ident pl)
         else if name = ''TT_EXTENDED_INFORMATION_REQUEST_DONE'' then
           seq [assign (\<lambda>st. st\<lparr> isBusy := False \<rparr>),
                setExtendedInfo cls (p_attrName pl) (p_ident pl) (Some (OrderedMap (p_data pl))),
                emitChange]
         else if name = ''TT_EXTENDED_INFORMATION_REMOVE_REQUEST'' then
           seq [clearExtendedInfo cls (p_attrName pl) (p_ident pl),
                emitChange]
         else if name = ''TT_ATTRIBUTE_AUTO_COMPLETE_HINT_CLICKED'' then
           seq [setTextInputAttrValue cls (p_attrName pl) (p_ident pl) (p_label pl) (p_append pl),
                emitChange,
                notifySelectionChange cls]
         else if name = ''TT_ATTRIBUTE_TEXT_INPUT_CHANGED'' then
           seq [handleAttrTextInputChange cls (p_attrName pl) (p_value pl),
                emitChange]
         else if name = ''TT_ATTRIBUTE_AUTO_COMPLETE_RESET'' then
           seq [resetAutoComplete cls (p_attrName pl),
                emitChange]
         else if name = ''TT_ATTRIBUTE_TEXT_INPUT_AUTOCOMPLETE_REQUEST'' then
           seq [assign (\<lambda>st. st\<lparr> isBusy := True \<rparr>),
                emitChange]
         else if name = ''TT_ATTRIBUTE_TEXT_INPUT_AUTOCOMPLETE_REQUEST_DONE'' then
           seq [assign (\<lambda>st. st\<lparr> isBusy := False \<rparr>),
                setAutoComplete cls (p_attrName pl) (p_data pl),
                emitChange]
         else if name = ''TT_MINIMIZE_ALL'' then
           seq [assign (\<lambda>st. st\<lparr> minimizedBoxes :=
                  (\<lambda>k. map_option (\<lambda>v. True) (minimizedBoxes st k)) \<rparr>),
                emitChange]
         else if name = ''TT_MAXIMIZE_ALL'' then
           seq [assign (\<lambda>st. st\<lparr> minimizedBoxes :=
                  (\<lambda>k. map_option (\<lambda>v. False) (minimizedBoxes st k)) \<rparr>),
                emitChange]
         else if name = ''TT_TOGGLE_MINIMIZE_ITEM'' then
           seq [assign (\<lambda>st. st\<lparr> minimizedBoxes :=
                  (minimizedBoxes st)(p_ident pl \<mapsto> (minimizedBoxes st (p_ident pl) \<noteq> Some True)) \<rparr>),
                emitChange]
         else if name = ''TT_SNAPSHOT_STATE'' then
           seq [assign (\<lambda>st. st\<lparr> selectionHistory := selectionHistory st @ [attributes st] \<rparr>),
                emitChange]
         else if name = ''TT_UNDO_STATE'' then
           seq [assign (\<lambda>st. st\<lparr> selectionHistory := butlast (selectionHistory st) \<rparr>),
                assign (\<lambda>st. st\<lparr> attributes :=
                  (if selectionHistory st = [] then None else last (selectionHistory st)) \<rparr>),
                emitChange,
                notifySelectionChange cls]
         else if name = ''TT_RESET_STATE'' then
           seq [reset,
                emitChange,
                notifySelectionChange cls]
         else if name = ''TT_LOCK_SELECTED'' then
           seq [with_attributes (\<lambda>attrs.
                  seq (map (\<lambda>attrName.
                              mapItems cls attrName
                                (\<lambda>item i. Some \<lparr> av_ident = av_ident item,
                                                 av_value = av_value item,
                                                 av_selected = av_selected item,
                                                 av_locked = True,
                                                 av_numGrouped = av_numGrouped item,
                                                 av_availItems = av_availItems item,
                                                 av_extendedInfo = av_extendedInfo item \<rparr>))
                           (getAttributesWithSelectedItems cls attrs False))),
                emitChange]
         else if name = ''TT_FILTER_WHOLE_SELECTION'' then
           seq [filterWholeSelection cls (p_data pl),
                emitChange]
         else if name = ''TT_SET_ATTR_SUMMARY'' then
           seq [assign (\<lambda>st. st\<lparr> metaInfo := (metaInfo st)(p_attrName pl \<mapsto> p_value pl) \<rparr>),
                emitChange]
         else nothing)"

text \<open>The names that the \<open>switch\<close> of \<open>onAction\<close> has a case for.\<close>

definition onAction_cases :: "string list" where
  "onAction_cases =
     [''TT_VALUE_CHECKBOX_CLICKED'', ''TT_SELECT_ALL_CHECKBOX_CLICKED'', ''TT_RANGE_BUTTON_CLICKED'',
      ''TT_TOGGLE_RANGE_MODE'', ''TT_EXTENDED_INFORMATION_REQUEST'',
      ''TT_EXTENDED_INFORMATION_REQUEST_DONE'', ''TT_EXTENDED_INFORMATION_REMOVE_REQUEST'',
      ''TT_ATTRIBUTE_AUTO_COMPLETE_HINT_CLICKED'', ''TT_ATTRIBUTE_TEXT_INPUT_CHANGED'',
      ''TT_ATTRIBUTE_AUTO_COMPLETE_RESET'', ''TT_ATTRIBUTE_TEXT_INPUT_AUTOCOMPLETE_REQUEST'',
      ''TT_ATTRIBUTE_TEXT_INPUT_AUTOCOMPLETE_REQUEST_DONE'', ''TT_MINIMIZE_ALL'', ''TT_MAXIMIZE_ALL'',
      ''TT_TOGGLE_MINIMIZE_ITEM'', ''TT_SNAPSHOT_STATE'', ''TT_UNDO_STATE'', ''TT_RESET_STATE'',
      ''TT_LOCK_SELECTED'', ''TT_FILTER_WHOLE_SELECTION'', ''TT_SET_ATTR_SUMMARY'']"


section \<open>A concrete text types form\<close>

text \<open>
  Modelled from the spec: the classes \<open>FullAttributeSelection\<close> and
  \<open>TextInputAttributeSelection\<close> of the module \<open>./valueSelections\<close> are not among the
  sources. To run the model on a concrete form, an attribute is taken as its name, its kind,
  its values and the text of its input box, with the methods doing what their names and
  the calls of the model say: a full list is an attribute that is not a text input; a value
  that a mapping function turns into \<open>null\<close> is dropped; a full list has user changes when a
  value is selected, a text input when it has a value or a text.
\<close>

record SampleAttr =
  sa_name :: string
  sa_textInput :: bool
  sa_values :: "AttributeValue list"
  sa_textFieldValue :: string

definition sample_mapValues ::
  "(AttributeValue \<Rightarrow> nat \<Rightarrow> AttributeValue option) \<Rightarrow> SampleAttr \<Rightarrow> SampleAttr" where
  "sample_mapValues f a =
     a\<lparr> sa_values := concat (map (\<lambda>(v, i). case f v i of None \<Rightarrow> [] | Some w \<Rightarrow> [w])
                                 (zip (sa_values a) [0 ..< length (sa_values a)])) \<rparr>"

definition sample_toggleValueSelection :: "int \<Rightarrow> SampleAttr \<Rightarrow> SampleAttr" where
  "sample_toggleValueSelection idx a =
     (if 0 \<le> idx \<and> idx < int (length (sa_values a))
      then a\<lparr> sa_values := (sa_values a)[nat idx :=
                 (sa_values a ! nat idx)\<lparr> av_selected := \<not> av_selected (sa_values a ! nat idx) \<rparr>] \<rparr>
      else a)"

definition sample_vs :: "SampleAttr ValueSelections" where
  "sample_vs =
     \<lparr> new_TextInputAttributeSelection =
         (\<lambda>name label numeric interval info text vals hints.
            \<lparr> sa_name = name, sa_textInput = True, sa_values = vals, sa_textFieldValue = text \<rparr>),
       new_FullAttributeSelection =
         (\<lambda>name label numeric interval info vals.
            \<lparr> sa_name = name, sa_textInput = False, sa_values = vals, sa_textFieldValue = '''' \<rparr>),
       attr_name = sa_name,
       attr_isTextInput = sa_textInput,
       attr_containsFullList = (\<lambda>a. \<not> sa_textInput a),
       attr_getValues = sa_values,
       attr_mapValues = sample_mapValues,
       attr_filter = (\<lambda>fn a. a\<lparr> sa_values := filter (\<lambda>v. fn (Some v)) (sa_values a) \<rparr>),
       attr_toggleValueSelection = sample_toggleValueSelection,
       attr_hasUserChanges =
         (\<lambda>a. if sa_textInput a then \<not> (sa_values a = [] \<and> sa_textFieldValue a = '''')
              else list_ex av_selected (sa_values a)),
       attr_isLocked = (\<lambda>a. list_ex av_locked (sa_values a)),
       attr_setExtendedInfo =
         (\<lambda>ident data a. a\<lparr> sa_values :=
            map (\<lambda>v. if av_ident v = ident then v\<lparr> av_extendedInfo := data \<rparr> else v) (sa_values a) \<rparr>),
       attr_addValue = (\<lambda>v a. a\<lparr> sa_values := sa_values a @ [v] \<rparr>),
       attr_clearValues = (\<lambda>a. a\<lparr> sa_values := [] \<rparr>),
       attr_resetAutoComplete = (\<lambda>a. a),
       attr_setTextFieldValue =
         (\<lambda>v a. case v of TextValue t \<Rightarrow> a\<lparr> sa_textFieldValue := t \<rparr> | _ \<Rightarrow> a),
       attr_setAutoComplete = (\<lambda>d a. a),
       attr_updateItems =
         (\<lambda>items a. a\<lparr> sa_values := filter (\<lambda>v. av_ident v \<in> set items) (sa_values a) \<rparr>) \<rparr>"

definition sample_api :: PluginApi where
  "sample_api =
     \<lparr> translate = (\<lambda>key args. key),
       formatNumber = toFixed1,
       getCorpusIdent_id = ''syn2010'',
       createActionUrl = (\<lambda>path. path) \<rparr>"

definition sample_env :: "SampleAttr environment" where
  "sample_env = \<lparr> vs = sample_vs, pluginApi = sample_api, getRangeModes = Map.empty \<rparr>"

text \<open>Server data with one attribute, \<open>doc.txtype\<close>, that lists two values.\<close>

definition sample_data :: InitialData where
  "sample_data =
     \<lparr> Blocks = [\<lparr> Line = [\<lparr> bl_Values = Some [\<lparr> blv_v = ''fiction'', blv_xcnt = Some 10 \<rparr>,
                                                  \<lparr> blv_v = ''press'', blv_xcnt = Some 20 \<rparr>],
                              bl_textboxlength = None,
                              bl_attr_doc = '''',
                              bl_attr_doc_label = '''',
                              bl_is_interval = 0,
                              bl_label = ''Text type'',
                              bl_name = ''doc.txtype'',
                              bl_numeric = False \<rparr>] \<rparr>],
       bib_attr = ''doc.title'',
       id_attr = ''doc.id'' \<rparr>"

text \<open>The state that the constructor builds from these data.\<close>

definition sample_state :: "SampleAttr TextTypesModelState" where
  "sample_state = projr (new_TextTypesModel sample_vs sample_data None)"

text \<open>Actions on that form. The view sends the name of the attribute with a click on the
  select-all box, the name and the position of the value with a click on a value, and
  nothing with the three actions of the history.\<close>

definition no_payload :: Payload where
  "no_payload =
     \<lparr> p_attrName = '''', p_itemIdx = 0, p_fromVal = None, p_toVal = None,
       p_strictInterval = None, p_keepCurrent = None, p_ident = '''', p_label = '''',
       p_append = False, p_data = NoData, p_value = NoValue \<rparr>"

definition select_all_clicked :: Action where
  "select_all_clicked =
     \<lparr> action_name = ''TT_SELECT_ALL_CHECKBOX_CLICKED'',
       payload = no_payload\<lparr> p_attrName := ''doc.txtype'' \<rparr> \<rparr>"

definition value_clicked :: Action where
  "value_clicked =
     \<lparr> action_name = ''TT_VALUE_CHECKBOX_CLICKED'',
       payload = no_payload\<lparr> p_attrName := ''doc.txtype'', p_itemIdx := 0 \<rparr> \<rparr>"

definition snapshot_state :: Action where
  "snapshot_state = \<lparr> action_name = ''TT_SNAPSHOT_STATE'', payload = no_payload \<rparr>"

definition undo_state :: Action where
  "undo_state = \<lparr> action_name = ''TT_UNDO_STATE'', payload = no_payload \<rparr>"

text \<open>The form after a click on its first value.\<close>

definition sample_state_clicked :: "SampleAttr TextTypesModelState" where
  "sample_state_clicked = fst (onAction sample_env value_clicked sample_state)"


section \<open>\<open>SubcMixerModel\<close>\<close>

text \<open>
  A form value (\<open>Kontext.FormValue\<close>) and what \<open>Kontext.newFormValue\<close> makes of a
  string; the module of these types is not among the sources.
\<close>

record FormValue =
  fv_value :: string
  fv_isInvalid :: bool
  fv_isRequired :: bool

definition newFormValue :: "string \<Rightarrow> bool \<Rightarrow> FormValue" where
  "newFormValue v isRequired = \<lparr> fv_value = v, fv_isInvalid = False, fv_isRequired = isRequired \<rparr>"

record TextTypeAttrVal =
  tav_attrName :: string
  tav_attrValue :: string
  tav_isSelected :: bool

record SubcMixerExpression =
  sme_attrName :: string
  sme_attrValue :: string
  sme_isSelected :: bool
  sme_ratio :: FormValue
  sme_baseRatio :: string
  sme_zeroFixed :: bool

record CalculationResults =
  cr_attrs :: "(string \<times> jsnum \<times> bool) list"
  cr_total :: int
  cr_ids :: "string list"
  cr_structs :: "string list"

record 'a SubcMixerModelState =
  sm_currentSubcname :: FormValue
  sm_shares :: "SubcMixerExpression list"
  sm_currentResult :: "CalculationResults option"
  sm_corpusIdAttr :: string
  sm_alignedCorpora :: "string list"
  sm_ratioLimit :: jsnum
  sm_isBusy :: bool
  sm_isVisible :: bool
  sm_subcIsPublic :: bool
  sm_subcDescription :: FormValue
  sm_numOfErrors :: int
  sm_ttAttributes :: "'a list"
  sm_ttInitialAvailableValues :: "'a list"
  sm_liveattrsSelections :: "(string \<times> string list) list"

text \<open>The request of \<open>submitTask\<close>; \<open>expression\<close> is the list that \<open>JSON.stringify\<close> writes.\<close>

record calc_request =
  calc_method :: http_method
  calc_url :: string
  calc_corpname :: string
  calc_aligned_corpora :: "string list"
  calc_expression :: "(string \<times> string \<times> jsnum) list"

text \<open>
  One round of the first loop of \<open>submitTask\<close>: the sum of the attribute starts at 0 when the
  object has no such key yet, and the ratio of the share, \<open>'0'\<close> for an empty one, is parsed
  and added. The sums are kept in the order in which the keys came, the order in which
  \<open>for (let k in sums)\<close> visits the names of attributes.
\<close>

definition add_ratio :: "(string \<times> jsnum) list \<Rightarrow> SubcMixerExpression \<Rightarrow> (string \<times> jsnum) list" where
  "add_ratio sums' item =
     (let sums1 = (if hasOwnProperty sums' (sme_attrName item) then sums'
                   else sums' @ [(sme_attrName item, Fin 0)])
      in map (\<lambda>(k, v).
                if k = sme_attrName item
                then (k, js_add v (parseFloat (if fv_value (sme_ratio item) = '''' then ''0''
                                               else fv_value (sme_ratio item))))
                else (k, v))
             sums1)"

definition submitTask :: "PluginApi \<Rightarrow> 'a SubcMixerModelState \<Rightarrow> js_error + calc_request" where
  "submitTask api state =
     (let sums' = foldl add_ratio [] (sm_shares state)
      in case find (\<lambda>(k, v). v \<noteq> Fin 100) sums' of
           Some (k, v) \<Rightarrow>
             Inl (Error (translate api ''ucnk_subcm__ratios_cannot_over_100_{struct_name}{over_val}''
                           [(''struct_name'', StrArg k),
                            (''over_val'', StrArg (formatNumber api (js_sub v (Fin 100))))]))
         | None \<Rightarrow>
             Inr \<lparr> calc_method = POST,
                   calc_url = createActionUrl api ''subcorpus/subcmixer_run_calc'',
                   calc_corpname = getCorpusIdent_id api,
                   calc_aligned_corpora = sm_alignedCorpora state,
                   calc_expression =
                     map (\<lambda>item. (sme_attrName item, sme_attrValue item,
                                   parseFloat (fv_value (sme_ratio item))))
                         (sm_shares state) \<rparr>)"

definition getTtAttribute :: "'a ValueSelections \<Rightarrow> 'a SubcMixerModelState \<Rightarrow> string \<Rightarrow> 'a option" where
  "getTtAttribute cls state ident = find (\<lambda>val. attr_name cls val = ident) (sm_ttAttributes state)"

definition getInitialAvailableValues ::
  "'a ValueSelections \<Rightarrow> 'a SubcMixerModelState \<Rightarrow> string \<Rightarrow> AttributeValue list" where
  "getInitialAvailableValues cls state attrName =
     (case find (\<lambda>item. attr_name cls item = attrName) (sm_ttInitialAvailableValues state) of
        Some a \<Rightarrow> attr_getValues cls a
      | None \<Rightarrow> [])"

text \<open>\<open>getAvailableValues\<close>. Every \<open>item\<close> is an attribute of the state, so \<open>getTtAttribute\<close>
  finds an attribute of its name.\<close>

definition getAvailableValues :: "'a ValueSelections \<Rightarrow> 'a SubcMixerModelState \<Rightarrow> TextTypeAttrVal list" where
  "getAvailableValues cls state =
     concat (map (\<lambda>item.
                    (case getTtAttribute cls state (attr_name cls item) of
                       None \<Rightarrow> []
                     | Some a \<Rightarrow>
                         (let tmp = map av_value (filter av_selected (attr_getValues cls a))
                          in map (\<lambda>subItem.
                                    \<lparr> tav_attrName = attr_name cls item,
                                      tav_attrValue = av_value subItem,
                                      tav_isSelected = list_ex (\<lambda>x. x = av_value subItem) tmp \<rparr>)
                                 (getInitialAvailableValues cls state (attr_name cls item)))))
                 (filter (attr_hasUserChanges cls) (sm_ttAttributes state)))"

text \<open>\<open>availItems\<close> as a number: \<open>undefined\<close> in arithmetic gives \<open>NaN\<close>.\<close>

definition availItems_number :: "AttributeValue \<Rightarrow> jsnum" where
  "availItems_number v = (case av_availItems v of None \<Rightarrow> NaN | Some n \<Rightarrow> of_number n)"

definition getTtAttrSize :: "'a ValueSelections \<Rightarrow> 'a SubcMixerModelState \<Rightarrow> string \<Rightarrow> jsnum" where
  "getTtAttrSize cls state attrName =
     (case find (\<lambda>item. attr_name cls item = attrName) (sm_ttAttributes state) of
        Some item \<Rightarrow> foldl (\<lambda>prev curr. js_add prev (availItems_number curr)) (of_number 0)
                       (attr_getValues cls item)
      | None \<Rightarrow> of_number (- 1))"

definition safeCalcInitialRatio :: "int \<Rightarrow> int \<Rightarrow> jsnum" where
  "safeCalcInitialRatio numItems currIdx =
     (let r = js_div (Math_round (js_mul (js_div (of_number 100) (of_number numItems)) (of_number 10)))
                (of_number 10)
      in if currIdx < numItems - 1 then r
         else js_sub (of_number 100) (js_mul (of_number (numItems - 1)) r))"

text \<open>The counter \<open>numValsPerGroup\<close> of \<open>refreshData\<close>: for a name, how many of the selected
  values are values of that attribute.\<close>

definition numValsPerGroup :: "TextTypeAttrVal list \<Rightarrow> string \<Rightarrow> int" where
  "numValsPerGroup selected name = int (length (filter (\<lambda>curr. tav_attrName curr = name) selected))"

text \<open>
  The callback of the \<open>List.map\<close> of \<open>refreshData\<close>, for the selected value \<open>item\<close> at the
  position \<open>i\<close> of the list of all selected values.
\<close>

definition refreshData_share ::
  "'a ValueSelections \<Rightarrow> 'a SubcMixerModelState \<Rightarrow> TextTypeAttrVal list \<Rightarrow> TextTypeAttrVal \<Rightarrow> nat
     \<Rightarrow> SubcMixerExpression" where
  "refreshData_share cls state selected item i =
     (let attrVal = (case find (\<lambda>val. attr_name cls val = tav_attrName item) (sm_ttAttributes state) of
                       Some a \<Rightarrow> find (\<lambda>item2. av_value item2 = tav_attrValue item) (attr_getValues cls a)
                     | None \<Rightarrow> None);
          total = getTtAttrSize cls state (tav_attrName item)
      in \<lparr> sme_attrName = tav_attrName item,
           sme_attrValue = tav_attrValue item,
           sme_isSelected = tav_isSelected item,
           sme_ratio = newFormValue
             (if tav_isSelected item
              then toFixed1 (safeCalcInitialRatio (numValsPerGroup selected (tav_attrName item)) (int i))
              else ''0'')
             True,
           sme_baseRatio =
             (case attrVal of
                Some v \<Rightarrow> toFixed1 (js_mul (js_div (availItems_number v) total) (of_number 100))
              | None \<Rightarrow> ''?''),
           sme_zeroFixed = (\<not> tav_isSelected item) \<rparr>)"

definition refreshData :: "'a ValueSelections \<Rightarrow> 'a SubcMixerModelState \<Rightarrow> 'a SubcMixerModelState" where
  "refreshData cls state =
     (let availableValues = getAvailableValues cls state;
          selected = filter tav_isSelected availableValues
      in state\<lparr> sm_shares :=
           map (\<lambda>(item, i). refreshData_share cls state selected item i)
               (zip selected [0 ..< length selected]) \<rparr>)"

text \<open>The shares that the widget shows: \<open>getShares\<close>.\<close>

definition getShares :: "'a SubcMixerModelState \<Rightarrow> SubcMixerExpression list" where
  "getShares state = filter (\<lambda>item. sme_zeroFixed item = False) (sm_shares state)"


section \<open>A concrete mixer\<close>

definition sample_value :: "string \<Rightarrow> bool \<Rightarrow> int \<Rightarrow> AttributeValue" where
  "sample_value v sel n =
     \<lparr> av_ident = v, av_value = v, av_selected = sel, av_locked = False, av_numGrouped = 1,
       av_availItems = Some n, av_extendedInfo = None \<rparr>"

definition sample_full :: "string \<Rightarrow> AttributeValue list \<Rightarrow> SampleAttr" where
  "sample_full name vals =
     \<lparr> sa_name = name, sa_textInput = False, sa_values = vals, sa_textFieldValue = '''' \<rparr>"

text \<open>A mixer over two attributes: one value of \<open>doc.txtype\<close> is selected, and all three
  values of \<open>doc.medium\<close>.\<close>

definition sample_mixer :: "SampleAttr SubcMixerModelState" where
  "sample_mixer =
     \<lparr> sm_currentSubcname = newFormValue '''' True,
       sm_shares = [],
       sm_currentResult = None,
       sm_corpusIdAttr = ''doc.id'',
       sm_alignedCorpora = [],
       sm_ratioLimit = parseFloat ''0.1'',
       sm_isBusy = False,
       sm_isVisible = False,
       sm_subcIsPublic = False,
       sm_subcDescription = newFormValue '''' False,
       sm_numOfErrors = 0,
       sm_ttAttributes =
         [sample_full ''doc.txtype'' [sample_value ''fiction'' True 10, sample_value ''press'' False 20],
          sample_full ''doc.medium'' [sample_value ''book'' True 5, sample_value ''journal'' True 5,
                                      sample_value ''web'' True 10]],
       sm_ttInitialAvailableValues =
         [sample_full ''doc.txtype'' [sample_value ''fiction'' False 10, sample_value ''press'' False 20],
          sample_full ''doc.medium'' [sample_value ''book'' False 5, sample_value ''journal'' False 5,
                                      sample_value ''web'' False 10]],
       sm_liveattrsSelections = [] \<rparr>"

text \<open>Shares of one attribute as a user can type them: three ratios that are 100 together.\<close>

definition sample_share :: "string \<Rightarrow> string \<Rightarrow> string \<Rightarrow> SubcMixerExpression" where
  "sample_share name v ratio =
     \<lparr> sme_attrName = name, sme_attrValue = v, sme_isSelected = True,
       sme_ratio = newFormValue ratio True, sme_baseRatio = ''?'', sme_zeroFixed = False \<rparr>"

definition typed_mixer :: "SampleAttr SubcMixerModelState" where
  "typed_mixer =
     sample_mixer\<lparr> sm_shares := [sample_share ''doc.medium'' ''book'' ''0.1'',
                                  sample_share ''doc.medium'' ''journal'' ''64.1'',
                                  sample_share ''doc.medium'' ''web'' ''35.8''] \<rparr>"

text \<open>The sum of a list of ratio strings, taken as exact decimal numbers.\<close>

definition decimal_sum :: "string list \<Rightarrow> rat option" where
  "decimal_sum ratios =
     foldl (\<lambda>acc r. case (acc, decimal_value r) of (Some a, Some b) \<Rightarrow> Some (a + b) | _ \<Rightarrow> None)
       (Some 0) ratios"

definition ratios_of :: "string \<Rightarrow> SubcMixerExpression list \<Rightarrow> string list" where
  "ratios_of name shares =
     map (\<lambda>item. fv_value (sme_ratio item)) (filter (\<lambda>item. sme_attrName item = name) shares)"


text \<open>The shares of one attribute with nine selected values, with the ratios that the widget
  itself sets when it is shown: eight times 11.1 and once 11.2.\<close>

definition default_nine_mixer :: "SampleAttr SubcMixerModelState" where
  "default_nine_mixer =
     sample_mixer\<lparr> sm_shares := [sample_share ''doc.medium'' ''v1'' ''11.1'',
                                  sample_share ''doc.medium'' ''v2'' ''11.1'',
                                  sample_share ''doc.medium'' ''v3'' ''11.1'',
                                  sample_share ''doc.medium'' ''v4'' ''11.1'',
                                  sample_share ''doc.medium'' ''v5'' ''11.1'',
                                  sample_share ''doc.medium'' ''v6'' ''11.1'',
                                  sample_share ''doc.medium'' ''v7'' ''11.1'',
                                  sample_share ''doc.medium'' ''v8'' ''11.1'',
                                  sample_share ''doc.medium'' ''v9'' ''11.2''] \<rparr>"


section \<open>\<open>SubcorpListModel\<close>\<close>

record AsyncTaskInfo =
  ati_ident :: string
  ati_label :: string
  ati_status :: string
  ati_category :: string
  ati_created :: int

record SubcListFilter =
  flt_show_archived :: bool
  flt_corpname :: string

record SortKey =
  sk_name :: string
  sk_reverse :: bool

record UnfinishedSubcorp =
  us_ident :: string
  us_name :: string
  us_created :: int
  us_failed :: bool

record currSubcorpusProps =
  csp_subcorpusId :: string
  csp_subcorpusName :: string
  csp_corpusName :: string

text \<open>The state; a line of the list is what \<open>importServerSubcList\<close> (module \<open>./common\<close>, not
  among the sources) makes of a server record, a value of some type \<open>'l\<close>.\<close>

record 'l SubcorpListModelState =
  sl_lines :: "'l list"
  sl_unfinished :: "UnfinishedSubcorp list"
  sl_relatedCorpora :: "string list"
  sl_sortKey :: SortKey
  sl_filter :: SubcListFilter
  sl_isBusy :: bool
  sl_editWindowSubcorpus :: "currSubcorpusProps option"
  sl_usesSubcRestore :: bool
  sl_finishedTasks :: "string \<rightharpoonup> bool"
  sl_page :: int

datatype sl_effect =
    ShowMessage string string
  | AjaxRequest request
  | EmitChange_sl

definition importProcessed :: "AsyncTaskInfo list \<Rightarrow> UnfinishedSubcorp list" where
  "importProcessed data =
     map (\<lambda>item. \<lparr> us_ident = ati_ident item,
                    us_name = ati_label item,
                    us_created = ati_created item * 1000,
                    us_failed = (ati_status item = ''FAILURE'') \<rparr>)
         (filter (\<lambda>v. ati_status v \<noteq> ''SUCCESS'') data)"

definition exportVal_bool :: "bool \<Rightarrow> string" where
  "exportVal_bool v = (if v then ''1'' else ''0'')"

definition mergeFilter :: "(string \<times> string) list \<Rightarrow> SubcListFilter \<Rightarrow> (string \<times> string) list" where
  "mergeFilter currArgs flt =
     currArgs @ [(''show_archived'', exportVal_bool (flt_show_archived flt)),
                 (''corpname'', flt_corpname flt)]"

text \<open>The request of \<open>filterItems\<close>, and of \<open>reloadItems\<close>, which filters with the filter of the
  state.\<close>

definition filterItems_request :: "PluginApi \<Rightarrow> 'l SubcorpListModelState \<Rightarrow> SubcListFilter \<Rightarrow> request" where
  "filterItems_request layoutModel st flt =
     \<lparr> req_method = GET,
       req_url = createActionUrl layoutModel ''subcorpus/list'',
       req_args = mergeFilter
                    [(''format'', ''json''),
                     (''sort'', (if sk_reverse (sl_sortKey st) then ''-'' else '''') @ sk_name (sl_sortKey st))]
                    flt \<rparr>"

definition reloadItems_request :: "PluginApi \<Rightarrow> 'l SubcorpListModelState \<Rightarrow> request" where
  "reloadItems_request layoutModel st = filterItems_request layoutModel st (sl_filter st)"

definition sortItems_request :: "PluginApi \<Rightarrow> 'l SubcorpListModelState \<Rightarrow> string \<Rightarrow> bool \<Rightarrow> request" where
  "sortItems_request layoutModel st name reverse =
     \<lparr> req_method = GET,
       req_url = createActionUrl layoutModel ''subcorpus/list'',
       req_args = mergeFilter
                    [(''format'', ''json''), (''sort'', (if reverse then ''-'' else '''') @ name)]
                    (sl_filter st) \<rparr>"

text \<open>
  The response of the server to either request, and what the \<open>tap\<close> of \<open>filterItems\<close> and of
  \<open>sortItems\<close> writes into the state when it arrives; the two functions below give the new
  state only. \<open>importServerSubcList\<close> is a parameter.
\<close>

record 'r SubcorpList =
  subcorp_list :: "'r list"
  processed_subc :: "AsyncTaskInfo list"
  related_corpora :: "string list"
  sort_key :: SortKey

definition filterItems_response ::
  "('r list \<Rightarrow> 'l list) \<Rightarrow> 'l SubcorpListModelState \<Rightarrow> SubcListFilter \<Rightarrow> 'r SubcorpList
     \<Rightarrow> 'l SubcorpListModelState" where
  "filterItems_response importServerSubcList st flt data =
     st\<lparr> sl_lines := importServerSubcList (subcorp_list data),
         sl_unfinished := importProcessed (processed_subc data),
         sl_relatedCorpora := related_corpora data,
         sl_filter := \<lparr> flt_show_archived = flt_show_archived flt, flt_corpname = flt_corpname flt \<rparr> \<rparr>"

definition sortItems_response ::
  "('r list \<Rightarrow> 'l list) \<Rightarrow> 'l SubcorpListModelState \<Rightarrow> 'r SubcorpList \<Rightarrow> 'l SubcorpListModelState" where
  "sortItems_response importServerSubcList st data =
     st\<lparr> sl_lines := importServerSubcList (subcorp_list data),
         sl_unfinished := importProcessed (processed_subc data),
         sl_relatedCorpora := related_corpora data,
         sl_sortKey := \<lparr> sk_name = sk_name (sort_key data), sk_reverse = sk_reverse (sort_key data) \<rparr> \<rparr>"

text \<open>
  The callback of \<open>List.forEach\<close> in the handler of task updates: a task that is not yet
  recorded as finished is announced, as an error when it has failed and as information
  otherwise, and recorded with \<open>changeState\<close>, which notifies the listeners of the model.
\<close>

definition announce_task ::
  "PluginApi \<Rightarrow> 'l SubcorpListModelState \<times> sl_effect list \<Rightarrow> AsyncTaskInfo
     \<Rightarrow> 'l SubcorpListModelState \<times> sl_effect list" where
  "announce_task layoutModel acc task =
     (case acc of (st, es) \<Rightarrow>
        if ati_status task = ''FAILURE'' then
          (if sl_finishedTasks st (ati_ident task) = Some True then (st, es)
           else (st\<lparr> sl_finishedTasks := (sl_finishedTasks st)(ati_ident task \<mapsto> True) \<rparr>,
                 es @ [ShowMessage ''error''
                         (translate layoutModel ''task__type_subcorpus_failed_{subc}''
                            [(''subc'', StrArg (ati_label task))]),
                       EmitChange_sl]))
        else
          (if sl_finishedTasks st (ati_ident task) = Some True then (st, es)
           else (st\<lparr> sl_finishedTasks := (sl_finishedTasks st)(ati_ident task \<mapsto> True) \<rparr>,
                 es @ [ShowMessage ''info''
                         (translate layoutModel ''task__type_subcorpus_done_{subc}''
                            [(''subc'', StrArg (ati_label task))]),
                       EmitChange_sl])))"

text \<open>
  The function that the constructor registers with \<open>addOnAsyncTaskUpdate\<close>: it runs on every
  update of the asynchronous tasks of the server, with the list of the tasks. Its result is
  the state and the effects of that run, in their order, the last one the request of
  \<open>reloadItems\<close>; the subscriber of that request runs later, when the response arrives.
\<close>

definition onAsyncTaskUpdate ::
  "PluginApi \<Rightarrow> 'l SubcorpListModelState \<Rightarrow> AsyncTaskInfo list
     \<Rightarrow> 'l SubcorpListModelState \<times> sl_effect list" where
  "onAsyncTaskUpdate layoutModel st itemList =
     (let subcTasks = filter (\<lambda>item. ati_category item = ''subcorpus'') itemList
      in if length subcTasks > 0 then
           (case foldl (announce_task layoutModel) (st, []) subcTasks of
              (st', es) \<Rightarrow> (st', es @ [AjaxRequest (reloadItems_request layoutModel st')]))
         else (st, []))"

text \<open>
  For the statement about the handler, not taken from the code: the tasks of a list that
  are to be announced, given which identifiers are already recorded. They are the tasks
  whose identifier is not recorded, each identifier once, at its first task, in the order
  of the list.
\<close>

fun tasks_to_announce :: "(string \<Rightarrow> bool) \<Rightarrow> AsyncTaskInfo list \<Rightarrow> AsyncTaskInfo list" where
  "tasks_to_announce recorded [] = []"
| "tasks_to_announce recorded (t # ts) =
     (if recorded (ati_ident t) then tasks_to_announce recorded ts
      else t # tasks_to_announce (\<lambda>k. k = ati_ident t \<or> recorded k) ts)"

text \<open>The requests and the messages among the effects.\<close>

fun requests_in :: "sl_effect list \<Rightarrow> request list" where
  "requests_in [] = []"
| "requests_in (AjaxRequest r # es) = r # requests_in es"
| "requests_in (_ # es) = requests_in es"

fun messages_in :: "sl_effect list \<Rightarrow> (string \<times> string) list" where
  "messages_in [] = []"
| "messages_in (ShowMessage t m # es) = (t, m) # messages_in es"
| "messages_in (_ # es) = messages_in es"

text \<open>A list with no subcorpus yet, and an update of the tasks: a subcorpus that is done, a
  subcorpus that has failed, and a task of another category.\<close>

definition sample_list :: "string SubcorpListModelState" where
  "sample_list =
     \<lparr> sl_lines = [], sl_unfinished = [], sl_relatedCorpora = [],
       sl_sortKey = \<lparr> sk_name = ''name'', sk_reverse = False \<rparr>,
       sl_filter = \<lparr> flt_show_archived = False, flt_corpname = '''' \<rparr>,
       sl_isBusy = False, sl_editWindowSubcorpus = None, sl_usesSubcRestore = False,
       sl_finishedTasks = Map.empty, sl_page = 1 \<rparr>"

definition sample_update :: "AsyncTaskInfo list" where
  "sample_update =
     [\<lparr> ati_ident = ''t1'', ati_label = ''fiction2020'', ati_status = ''SUCCESS'',
         ati_category = ''subcorpus'', ati_created = 1600000000 \<rparr>,
      \<lparr> ati_ident = ''t2'', ati_label = ''press2020'', ati_status = ''FAILURE'',
         ati_category = ''subcorpus'', ati_created = 1600000050 \<rparr>,
      \<lparr> ati_ident = ''t3'', ati_label = ''frequency list'', ati_status = ''SUCCESS'',
         ati_category = ''freqPrecalc'', ati_created = 1600000100 \<rparr>]"


section \<open>Properties\<close>

subsection \<open>The schedule of the wordlist progress updater\<close>

lemma cur_period_updateProcessBar_lower:
  "1000 \<le> cur_period (job_options (updateProcessBar c s a)) n"
  by (cases n) (simp_all add: updateProcessBar_def Let_def)

lemma cur_period_updateProcessBar_Suc:
  "cur_period (job_options (updateProcessBar c s a)) (Suc n)
     = min 60000 (cur_period (job_options (updateProcessBar c s a)) n * (12 / 10))"
proof -
  let ?o = "job_options (updateProcessBar c s a)"
  have opts: "period ?o = 1000" "decay ?o = 12 / 10" "max_period ?o = 60000"
    by (simp_all add: updateProcessBar_def Let_def)
  have "1000 \<le> cur_period ?o n"
    by (rule cur_period_updateProcessBar_lower)
  then have "\<not> cur_period ?o n * (12 / 10) < 1000"
    by simp
  then show ?thesis
    by (simp add: opts Let_def min_def)
qed

lemma cur_period_updateProcessBar_upper:
  "cur_period (job_options (updateProcessBar c s a)) n \<le> 60000"
proof (cases n)
  case 0
  then show ?thesis
    by (simp add: updateProcessBar_def Let_def)
next
  case (Suc m)
  then show ?thesis
    by (simp only: cur_period_updateProcessBar_Suc min.cobounded1)
qed

text \<open>
  Claim C1, as stated: no server request is re-issued on a timed schedule with a growing
  period, and no component sets the timing of its own polling. It fails for the wordlist
  progress updater: it asks the scheduler for a decay factor above 1, and the wait before
  the second \<open>wordlist_process\<close> request is longer than the wait before the first.
\<close>

theorem C1_counterexample:
  "req_url (job_request (updateProcessBar ''corpname=syn2010'' ''mysub'' ''word'')) = ''wordlist_process''
   \<and> 1 < decay (job_options (updateProcessBar ''corpname=syn2010'' ''mysub'' ''word''))
   \<and> cur_period (job_options (updateProcessBar ''corpname=syn2010'' ''mysub'' ''word'')) 0
       < cur_period (job_options (updateProcessBar ''corpname=syn2010'' ''mysub'' ''word'')) 1"
  by (simp add: updateProcessBar_def Let_def)

text \<open>
  Claim C1, amended: \<open>lib.updateProcessBar\<close> re-issues the GET request \<open>wordlist_process\<close> on a
  timed schedule with a growing period. It hands the scheduler period 1000 ms, decay 1.2 and
  maximum period 60000 ms, so the waiting time starts at 1000 ms, is multiplied by 1.2 after
  every run and is capped at 60000 ms: it never shrinks and never leaves the range from 1000
  to 60000. The completion handler only sets the width of the progress bar, and reloads the
  page when the response is \<open>100%\<close>; it shows no error message.
\<close>

theorem C1_wordlist_polling_schedule:
  "job_options (updateProcessBar c s a) = \<lparr> period = 1000, decay = 12 / 10, max_period = 60000 \<rparr>
   \<and> req_method (job_request (updateProcessBar c s a)) = GET
   \<and> req_url (job_request (updateProcessBar c s a)) = ''wordlist_process''
   \<and> cur_period (job_options (updateProcessBar c s a)) 0 = 1000
   \<and> cur_period (job_options (updateProcessBar c s a)) (Suc n)
       = min 60000 (cur_period (job_options (updateProcessBar c s a)) n * (12 / 10))
   \<and> 1000 \<le> cur_period (job_options (updateProcessBar c s a)) n
   \<and> cur_period (job_options (updateProcessBar c s a)) n \<le> 60000
   \<and> cur_period (job_options (updateProcessBar c s a)) n
       \<le> cur_period (job_options (updateProcessBar c s a)) (Suc n)
   \<and> updateProcessBar_complete t
       = SetProcessbarWidth t # (if t = ''100%'' then [ReloadPage] else [])"
proof -
  let ?o = "job_options (updateProcessBar c s a)"
  have lo: "1000 \<le> cur_period ?o n"
    by (rule cur_period_updateProcessBar_lower)
  have up: "cur_period ?o n \<le> 60000"
    by (rule cur_period_updateProcessBar_upper)
  have step: "cur_period ?o (Suc n) = min 60000 (cur_period ?o n * (12 / 10))"
    by (rule cur_period_updateProcessBar_Suc)
  have mono: "cur_period ?o n \<le> cur_period ?o (Suc n)"
    using lo up unfolding step by (simp add: min_def)
  have opts: "?o = \<lparr> period = 1000, decay = 12 / 10, max_period = 60000 \<rparr>"
    by (simp add: updateProcessBar_def Let_def)
  have req: "req_method (job_request (updateProcessBar c s a)) = GET"
    "req_url (job_request (updateProcessBar c s a)) = ''wordlist_process''"
    by (simp_all add: updateProcessBar_def Let_def)
  have first: "cur_period ?o 0 = 1000"
    by (simp add: updateProcessBar_def Let_def)
  have handler: "updateProcessBar_complete t
       = SetProcessbarWidth t # (if t = ''100%'' then [ReloadPage] else [])"
    by (simp add: updateProcessBar_complete_def)
  from opts req first step lo up mono handler show ?thesis
    by (intro conjI)
qed


subsection \<open>The stored response of the tag loader\<close>

text \<open>
  Claim C2, as stated: every invocation of a data-loading operation issues a fresh request.
  It fails for \<open>TagLoader.loadInitialVariants\<close>: once a response has arrived, the next call
  sends nothing and hands the stored response to the callback.
\<close>

theorem C2_counterexample:
  "requests_of (loadInitialVariants
      (fst (loadInitialVariants_success (new_TagLoader ''syn2010'') [(''tags'', ''A''), (''labels'', ''B'')])))
     = []
   \<and> loadInitialVariants
      (fst (loadInitialVariants_success (new_TagLoader ''syn2010'') [(''tags'', ''A''), (''labels'', ''B'')]))
     = [Callback [(''tags'', ''A''), (''labels'', ''B'')]]"
  by (simp add: loadInitialVariants_def loadInitialVariants_success_def new_TagLoader_def
      hasOwnProperty_def)

text \<open>
  Claim C2, amended: \<open>TagLoader.loadInitialVariants\<close> issues its request only while no
  response is stored: a new loader sends one GET request; a successful response without an
  \<open>error\<close> key is stored, and every later call hands the stored response to the callback and
  sends nothing. The other loading operations send a fresh request on every invocation:
  \<open>TagLoader.loadPatternVariants\<close> one GET of \<open>ajax_get_tag_variants\<close> with the pattern, and
  \<open>PublicSubcorpListModel.loadData\<close> one GET of the URL that the page model makes of the
  action \<open>subcorpus/list_published\<close>, with the corpus name and the code prefix of the state.
\<close>

theorem C2_initial_variants_stored:
  assumes "\<not> hasOwnProperty data ''error''"
  shows "requests_of (loadInitialVariants (new_TagLoader c :: 'v TagLoader))
           = [\<lparr> req_method = GET, req_url = ''ajax_get_tag_variants?corpname='' @ c, req_args = [] \<rparr>]
         \<and> initialValues (fst (loadInitialVariants_success self data)) = Some data
         \<and> loadInitialVariants (fst (loadInitialVariants_success self data)) = [Callback data]
         \<and> requests_of (loadInitialVariants self)
             = (if initialValues self = None
                then [\<lparr> req_method = GET,
                        req_url = ''ajax_get_tag_variants?corpname='' @ corpusName self,
                        req_args = [] \<rparr>]
                else [])
         \<and> requests_of (loadPatternVariants self p)
             = [\<lparr> req_method = GET,
                  req_url = ''ajax_get_tag_variants?corpname='' @ corpusName self @ ''&pattern='' @ p,
                  req_args = [] \<rparr>]
         \<and> req_method (loadData pm st) = GET
         \<and> req_url (loadData pm st) = createActionUrl pm ''subcorpus/list_published''
         \<and> req_args (loadData pm st)
             = [(''format'', ''json''), (''corpname'', psl_corpname st),
                (''code_prefix'', psl_codePrefix st), (''offset'', ''0''), (''limit'', ''20'')]"
  using assms
  by (auto simp add: loadInitialVariants_def loadInitialVariants_success_def new_TagLoader_def
      loadPatternVariants_def loadData_def Let_def split: option.splits)

theorem C2_initial_variants_stored_witness:
  "\<not> hasOwnProperty [(''tags'', ''A'')] ''error''
   \<and> loadInitialVariants
        (fst (loadInitialVariants_success (new_TagLoader ''syn2010'') [(''tags'', ''A'')]))
       = [Callback [(''tags'', ''A'')]]"
proof -
  have h: "\<not> hasOwnProperty [(''tags'', ''A'')] ''error''"
    by (simp add: hasOwnProperty_def)
  show ?thesis
    using h C2_initial_variants_stored [OF h, where c = "''syn2010''"
        and self = "new_TagLoader ''syn2010''" and p = "''N.*''"
        and pm = sample_api
        and st = "new_PublicSubcorpListModel [] []"]
    by blast
qed


subsection \<open>Running the steps of \<open>TextTypesModel\<close>\<close>

lemma seq_assign_state:
  "fst (seq (assign f # fs) st) = fst (seq fs (f st))"
  by (simp add: assign_def split: prod.splits option.splits)

lemma seq_emitChange_state:
  "fst (seq (emitChange # fs) st) = fst (seq fs st)"
  by (simp add: emitChange_def split: prod.splits option.splits)

lemma seq_notify_last_state:
  "fst (seq [notifySelectionChange cls] st) = st"
  by (simp add: notifySelectionChange_def with_attributes_def split: option.splits)

lemma onAction_snapshot_state:
  "fst (onAction env snapshot_state st)
     = st\<lparr> selectionHistory := selectionHistory st @ [attributes st] \<rparr>"
  by (simp add: onAction_def snapshot_state_def Let_def seq_assign_state seq_emitChange_state
      del: seq.simps(2))

lemma onAction_undo_state:
  "fst (onAction env undo_state st)
     = st\<lparr> selectionHistory := butlast (selectionHistory st),
            attributes := (if butlast (selectionHistory st) = [] then None
                           else last (butlast (selectionHistory st))) \<rparr>"
  by (simp add: onAction_def undo_state_def Let_def seq_assign_state seq_emitChange_state
      seq_notify_last_state del: seq.simps(2))

lemma sample_state_built:
  "new_TextTypesModel sample_vs sample_data None = Inr sample_state"
  by (simp add: sample_state_def new_TextTypesModel_def importInitialData_def
      importBlockLine_def sample_data_def sample_vs_def Let_def)

lemma sample_state_value:
  "sample_state =
     \<lparr> attributes = Some [\<lparr> sa_name = ''doc.txtype'', sa_textInput = False,
                             sa_values = [\<lparr> av_ident = ''fiction'', av_value = ''fiction'',
                                            av_selected = False, av_locked = False,
                                            av_numGrouped = 1, av_availItems = Some 10,
                                            av_extendedInfo = None \<rparr>,
                                          \<lparr> av_ident = ''press'', av_value = ''press'',
                                            av_selected = False, av_locked = False,
                                            av_numGrouped = 1, av_availItems = Some 20,
                                            av_extendedInfo = None \<rparr>],
                             sa_textFieldValue = '''' \<rparr>],
       bibLabelAttr = ''doc.title'',
       bibIdAttr = ''doc.id'',
       selectionHistory = [Some [\<lparr> sa_name = ''doc.txtype'', sa_textInput = False,
                             sa_values = [\<lparr> av_ident = ''fiction'', av_value = ''fiction'',
                                            av_selected = False, av_locked = False,
                                            av_numGrouped = 1, av_availItems = Some 10,
                                            av_extendedInfo = None \<rparr>,
                                          \<lparr> av_ident = ''press'', av_value = ''press'',
                                            av_selected = False, av_locked = False,
                                            av_numGrouped = 1, av_availItems = Some 20,
                                            av_extendedInfo = None \<rparr>],
                             sa_textFieldValue = '''' \<rparr>]],
       selectAll = map_of [(''doc.txtype'', False)],
       metaInfo = Map.empty,
       minimizedBoxes = map_of [(''doc.txtype'', False)],
       textInputPlaceholder = None,
       isBusy = False,
       autoCompleteSupport = False,
       hasSelectedItems = False \<rparr>"
  by (simp add: sample_state_def new_TextTypesModel_def importInitialData_def
      importBlockLine_def sample_data_def sample_vs_def typeIsSelected_def Let_def)


subsection \<open>The select-all box\<close>

text \<open>
  Claim C3: a click on the select-all box of an attribute with a full list of values only
  flips the flag of the attribute and selects or deselects its values; the range request
  is not executed. The code does execute it: on the sample form, whose attribute
  \<open>doc.txtype\<close> has a full list, the action calls the range selector with the name of the
  attribute and four undefined arguments, and dispatches the selection change twice.
\<close>

theorem C3_select_all_runs_range_request:
  "attr_containsFullList sample_vs (hd (the (attributes sample_state)))
   \<and> fst (snd (onAction sample_env select_all_clicked sample_state))
       = [EmitChange,
          Dispatch_TT_SELECTION_CHANGED
            (the (attributes (fst (onAction sample_env select_all_clicked sample_state)))) True,
          RangeSelector_applyRange ''doc.txtype'' None None None None,
          Dispatch_TT_SELECTION_CHANGED
            (the (attributes (fst (onAction sample_env select_all_clicked sample_state)))) True]
   \<and> snd (snd (onAction sample_env select_all_clicked sample_state)) = None"
  unfolding sample_state_value
  by (simp add: onAction_def select_all_clicked_def no_payload_def sample_env_def sample_vs_def
      applySelectAll_def applyRange_def notifySelectionChange_def with_attributes_def
      getAttribute_def indexOf_def set_at_def findHasSelectedItems_def emitChange_def
      sample_mapValues_def Let_def)


subsection \<open>The selection history\<close>

text \<open>
  Claim C5: the selection history always holds at least one element, also after
  \<open>TT_UNDO_STATE\<close> on a history of one element. The code pops the history without looking
  at its size: an undo on the state that the constructor has just built (one snapshot, so
  \<open>canUndoState\<close> is false) leaves the history empty and the attributes undefined, and the
  notification that follows throws.
\<close>

theorem C5_undo_empties_history:
  "new_TextTypesModel sample_vs sample_data None = Inr sample_state
   \<and> length (selectionHistory sample_state) = 1
   \<and> \<not> canUndoState sample_state
   \<and> selectionHistory (fst (onAction sample_env undo_state sample_state)) = []
   \<and> attributes (fst (onAction sample_env undo_state sample_state)) = None
   \<and> snd (onAction sample_env undo_state sample_state)
       = ([EmitChange], Some (TypeError ''this.state.attributes is undefined''))"
proof -
  have built: "new_TextTypesModel sample_vs sample_data None = Inr sample_state"
    by (rule sample_state_built)
  have one: "length (selectionHistory sample_state) = 1"
    by (simp add: sample_state_value)
  have no_undo: "\<not> canUndoState sample_state"
    by (simp add: canUndoState_def one)
  have hist: "selectionHistory (fst (onAction sample_env undo_state sample_state)) = []"
    by (simp add: onAction_undo_state sample_state_value)
  have attrs: "attributes (fst (onAction sample_env undo_state sample_state)) = None"
    by (simp add: onAction_undo_state sample_state_value)
  have thrown: "snd (onAction sample_env undo_state sample_state)
       = ([EmitChange], Some (TypeError ''this.state.attributes is undefined''))"
    unfolding sample_state_value
    by (simp add: onAction_def undo_state_def Let_def assign_def emitChange_def
        notifySelectionChange_def with_attributes_def)
  from built one no_undo hist attrs thrown show ?thesis
    by (intro conjI)
qed

text \<open>
  Claim C6, as stated: a snapshot followed at once by an undo gives back the attributes
  that were current at the snapshot. It fails on the sample form after a click on a value:
  the click changes the attributes and not the history, and the undo after the snapshot
  brings back the attributes of the construction, without the click.
\<close>

theorem C6_counterexample:
  "attributes (fst (onAction sample_env undo_state
                      (fst (onAction sample_env snapshot_state sample_state_clicked))))
     \<noteq> attributes sample_state_clicked
   \<and> attributes (fst (onAction sample_env undo_state
                      (fst (onAction sample_env snapshot_state sample_state_clicked))))
     = attributes sample_state"
proof -
  have clicked: "sample_state_clicked
      = sample_state\<lparr> attributes := Some [\<lparr> sa_name = ''doc.txtype'', sa_textInput = False,
                             sa_values = [\<lparr> av_ident = ''fiction'', av_value = ''fiction'',
                                            av_selected = True, av_locked = False,
                                            av_numGrouped = 1, av_availItems = Some 10,
                                            av_extendedInfo = None \<rparr>,
                                          \<lparr> av_ident = ''press'', av_value = ''press'',
                                            av_selected = False, av_locked = False,
                                            av_numGrouped = 1, av_availItems = Some 20,
                                            av_extendedInfo = None \<rparr>],
                             sa_textFieldValue = '''' \<rparr>],
                        hasSelectedItems := True \<rparr>"
    unfolding sample_state_clicked_def sample_state_value
    by (simp add: onAction_def value_clicked_def no_payload_def sample_env_def sample_vs_def
        changeValueSelection_def notifySelectionChange_def with_attributes_def
        getAttribute_def indexOf_def set_at_def findHasSelectedItems_def emitChange_def
        assign_def sample_toggleValueSelection_def Let_def)
  show ?thesis
    unfolding onAction_undo_state onAction_snapshot_state clicked
    by (simp add: sample_state_value)
qed

text \<open>
  Claim C6, amended: a snapshot followed at once by an undo restores the selection history
  to its value before the snapshot, and sets the attributes to the last snapshot of that
  history (to \<open>undefined\<close> when that history is empty), whatever the attributes were when the
  snapshot was taken. So the attributes are given back exactly when they were equal to that
  last snapshot.
\<close>

theorem C6_snapshot_then_undo:
  "selectionHistory (fst (onAction env undo_state (fst (onAction env snapshot_state st))))
     = selectionHistory st
   \<and> attributes (fst (onAction env undo_state (fst (onAction env snapshot_state st))))
     = (if selectionHistory st = [] then None else last (selectionHistory st))
   \<and> ((attributes (fst (onAction env undo_state (fst (onAction env snapshot_state st))))
        = attributes st)
      = (attributes st = (if selectionHistory st = [] then None else last (selectionHistory st))))"
  by (simp add: onAction_undo_state onAction_snapshot_state eq_commute)


subsection \<open>Actions that a model has no case for\<close>

text \<open>
  Claim C8: an action that a model does not handle leaves its state as it was.
  \<open>PublicSubcorpListModel.reduce\<close> returns the state it was given for every action type
  other than \<open>SET_CORPUS_NAME\<close>, \<open>SET_CODE_PREFIX\<close> and \<open>DATA_LOAD_DONE\<close>, and
  \<open>TextTypesModel.onAction\<close> leaves the state unchanged, does nothing else and throws nothing
  for every action name that its \<open>switch\<close> has no case for.
\<close>

theorem C8_unhandled_action_keeps_state:
  assumes "actionType a \<notin> {SET_CORPUS_NAME, SET_CODE_PREFIX, DATA_LOAD_DONE}"
    and "action_name b \<notin> set onAction_cases"
  shows "reduce s a = Inr s \<and> onAction env b st = (st, [], None)"
proof -
  from assms(1) have "reduce s a = Inr s"
    by (simp add: reduce_def)
  moreover from assms(2) have "onAction env b st = (st, [], None)"
    by (simp add: onAction_def onAction_cases_def nothing_def Let_def)
  ultimately show ?thesis
    by simp
qed

theorem C8_unhandled_action_keeps_state_witness:
  "actionType \<lparr> actionType = RESET_FILTER, props = \<lparr> props_value = '''', props_data = None \<rparr> \<rparr>
     \<notin> {SET_CORPUS_NAME, SET_CODE_PREFIX, DATA_LOAD_DONE}
   \<and> action_name \<lparr> action_name = ''TT_SELECTION_CHANGED'', payload = no_payload \<rparr>
     \<notin> set onAction_cases
   \<and> reduce (new_PublicSubcorpListModel [] [])
        \<lparr> actionType = RESET_FILTER, props = \<lparr> props_value = '''', props_data = None \<rparr> \<rparr>
     = Inr (new_PublicSubcorpListModel [] [])
   \<and> onAction sample_env \<lparr> action_name = ''TT_SELECTION_CHANGED'', payload = no_payload \<rparr> sample_state
     = (sample_state, [], None)"
proof -
  have h1: "actionType \<lparr> actionType = RESET_FILTER, props = \<lparr> props_value = '''', props_data = None \<rparr> \<rparr>
     \<notin> {SET_CORPUS_NAME, SET_CODE_PREFIX, DATA_LOAD_DONE}"
    by (simp add: RESET_FILTER_def SET_CORPUS_NAME_def SET_CODE_PREFIX_def DATA_LOAD_DONE_def)
  have h2: "action_name \<lparr> action_name = ''TT_SELECTION_CHANGED'', payload = no_payload \<rparr>
     \<notin> set onAction_cases"
    by (simp add: onAction_cases_def)
  from h1 h2 C8_unhandled_action_keeps_state [OF h1 h2, where s = "new_PublicSubcorpListModel [] []"
      and env = sample_env and st = sample_state]
  show ?thesis
    by blast
qed


subsection \<open>The ratios of the subcorpus mixer\<close>

lemma refreshData_sample_ratios:
  "map (\<lambda>item. (sme_attrName item, fv_value (sme_ratio item), sme_zeroFixed item))
       (sm_shares (refreshData sample_vs sample_mixer))
     = [(''doc.txtype'', ''100.0'', False), (''doc.medium'', ''33.3'', False),
        (''doc.medium'', ''33.4'', False), (''doc.medium'', ''33.4'', False)]"
  by code_simp

lemma decimal_sum_sample_medium:
  "decimal_sum [''33.3'', ''33.4'', ''33.4''] = Some (1001 / 10)"
  by code_simp

lemma safeCalcInitialRatio_three:
  "[toFixed1 (safeCalcInitialRatio 3 0), toFixed1 (safeCalcInitialRatio 3 1),
    toFixed1 (safeCalcInitialRatio 3 2), toFixed1 (safeCalcInitialRatio 3 3)]
     = [''33.3'', ''33.3'', ''33.4'', ''33.4'']"
  by code_simp

text \<open>
  Claim C4: whenever the mixer recomputes its shares, the initial ratios of the shares of
  every attribute with a selected value are 100 together. The code numbers the selected
  values of all attributes in one sequence and takes that number for the position of a
  value among the values of its attribute. On the sample mixer the three values of the
  second attribute have the numbers 1, 2 and 3, where 0, 1 and 2 give 33.3, 33.3 and 33.4:
  their ratios are 33.3, 33.4 and 33.4, which is 100.1.
\<close>

theorem C4_initial_ratios_not_hundred:
  "ratios_of ''doc.txtype'' (getShares (refreshData sample_vs sample_mixer)) = [''100.0'']
   \<and> ratios_of ''doc.medium'' (getShares (refreshData sample_vs sample_mixer))
       = [''33.3'', ''33.4'', ''33.4'']
   \<and> decimal_sum (ratios_of ''doc.medium'' (getShares (refreshData sample_vs sample_mixer)))
       = Some (1001 / 10)
   \<and> [toFixed1 (safeCalcInitialRatio 3 0), toFixed1 (safeCalcInitialRatio 3 1),
       toFixed1 (safeCalcInitialRatio 3 2), toFixed1 (safeCalcInitialRatio 3 3)]
       = [''33.3'', ''33.3'', ''33.4'', ''33.4'']"
proof -
  have shares: "map (\<lambda>item. (sme_attrName item, fv_value (sme_ratio item), sme_zeroFixed item))
       (sm_shares (refreshData sample_vs sample_mixer))
     = [(''doc.txtype'', ''100.0'', False), (''doc.medium'', ''33.3'', False),
        (''doc.medium'', ''33.4'', False), (''doc.medium'', ''33.4'', False)]"
    by (rule refreshData_sample_ratios)
  have ratios: "ratios_of name (getShares st)
      = map (fst \<circ> snd)
          (filter (\<lambda>t. fst t = name \<and> snd (snd t) = False)
             (map (\<lambda>item. (sme_attrName item, fv_value (sme_ratio item), sme_zeroFixed item))
                (sm_shares st)))" for name and st :: "SampleAttr SubcMixerModelState"
    by (induction "sm_shares st" arbitrary: st)
      (simp_all add: ratios_of_def getShares_def filter_map comp_def conj_commute)
  have txtype: "ratios_of ''doc.txtype'' (getShares (refreshData sample_vs sample_mixer)) = [''100.0'']"
    unfolding ratios shares by simp
  have medium: "ratios_of ''doc.medium'' (getShares (refreshData sample_vs sample_mixer))
       = [''33.3'', ''33.4'', ''33.4'']"
    unfolding ratios shares by simp
  have total: "decimal_sum (ratios_of ''doc.medium'' (getShares (refreshData sample_vs sample_mixer)))
       = Some (1001 / 10)"
    unfolding medium by (rule decimal_sum_sample_medium)
  from txtype medium total safeCalcInitialRatio_three show ?thesis
    by (intro conjI)
qed

lemma typed_mixer_sums:
  "foldl add_ratio [] (sm_shares typed_mixer)
     = [(''doc.medium'', Fin (7036874417766399 / 70368744177664))]"
  by code_simp

lemma typed_mixer_decimal_sum:
  "decimal_sum (ratios_of ''doc.medium'' (sm_shares typed_mixer)) = Some 100"
  by code_simp

lemma default_nine_mixer_sums:
  "foldl add_ratio [] (sm_shares default_nine_mixer)
     = [(''doc.medium'', Fin (7036874417766399 / 70368744177664))]"
  by code_simp

lemma default_nine_mixer_decimal_sum:
  "decimal_sum (ratios_of ''doc.medium'' (sm_shares default_nine_mixer)) = Some 100"
  by code_simp

lemma safeCalcInitialRatio_nine:
  "[toFixed1 (safeCalcInitialRatio 9 0), toFixed1 (safeCalcInitialRatio 9 7),
    toFixed1 (safeCalcInitialRatio 9 8)] = [''11.1'', ''11.1'', ''11.2'']"
  by code_simp

lemma submitTask_rejects:
  assumes "foldl add_ratio [] (sm_shares st) = [(k, Fin v)]" and "v \<noteq> 100"
  shows "submitTask api st
           = Inl (Error (translate api ''ucnk_subcm__ratios_cannot_over_100_{struct_name}{over_val}''
                           [(''struct_name'', StrArg k),
                            (''over_val'', StrArg (formatNumber api (js_sub (Fin v) (Fin 100))))]))"
  using assms by (simp add: submitTask_def)

text \<open>
  Claim C7: \<open>submitTask\<close> returns an error, and sends nothing, exactly when the ratios of
  some attribute, taken as decimal numbers, are not 100 together. The code adds the parsed
  ratios as doubles and compares the sum with 100: the ratios 0.1, 64.1 and 35.8 of one
  attribute are exactly 100, their sum as doubles is \<open>100 - 2^-46\<close>, and the task is refused.
  So are the nine ratios that the widget itself sets for an attribute with nine selected
  values, 11.1 eight times and 11.2.
\<close>

theorem C7_exact_hundred_rejected:
  "decimal_sum (ratios_of ''doc.medium'' (sm_shares typed_mixer)) = Some 100
   \<and> foldl add_ratio [] (sm_shares typed_mixer)
       = [(''doc.medium'', Fin (7036874417766399 / 70368744177664))]
   \<and> submitTask sample_api typed_mixer
       = Inl (Error ''ucnk_subcm__ratios_cannot_over_100_{struct_name}{over_val}'')
   \<and> [toFixed1 (safeCalcInitialRatio 9 0), toFixed1 (safeCalcInitialRatio 9 7),
       toFixed1 (safeCalcInitialRatio 9 8)] = [''11.1'', ''11.1'', ''11.2'']
   \<and> decimal_sum (ratios_of ''doc.medium'' (sm_shares default_nine_mixer)) = Some 100
   \<and> submitTask sample_api default_nine_mixer
       = Inl (Error ''ucnk_subcm__ratios_cannot_over_100_{struct_name}{over_val}'')"
proof -
  have below: "(7036874417766399 / 70368744177664 :: rat) \<noteq> 100"
    by simp
  have typed: "submitTask sample_api typed_mixer
       = Inl (Error ''ucnk_subcm__ratios_cannot_over_100_{struct_name}{over_val}'')"
    using submitTask_rejects [OF typed_mixer_sums below, of sample_api]
    by (simp add: sample_api_def)
  have nine: "submitTask sample_api default_nine_mixer
       = Inl (Error ''ucnk_subcm__ratios_cannot_over_100_{struct_name}{over_val}'')"
    using submitTask_rejects [OF default_nine_mixer_sums below, of sample_api]
    by (simp add: sample_api_def)
  from typed_mixer_decimal_sum typed_mixer_sums typed safeCalcInitialRatio_nine
    default_nine_mixer_decimal_sum nine
  show ?thesis
    by (intro conjI)
qed


subsection \<open>The monitor of subcorpus tasks\<close>

lemma requests_in_append:
  "requests_in (es @ es') = requests_in es @ requests_in es'"
  by (induction es rule: requests_in.induct) simp_all

lemma messages_in_append:
  "messages_in (es @ es') = messages_in es @ messages_in es'"
  by (induction es rule: messages_in.induct) simp_all

lemma announce_task_cases:
  "announce_task lm (st, es) task =
     (if sl_finishedTasks st (ati_ident task) = Some True then (st, es)
      else (st\<lparr> sl_finishedTasks := (sl_finishedTasks st)(ati_ident task \<mapsto> True) \<rparr>,
            es @ [ShowMessage (if ati_status task = ''FAILURE'' then ''error'' else ''info'')
                    (translate lm (if ati_status task = ''FAILURE''
                                   then ''task__type_subcorpus_failed_{subc}''
                                   else ''task__type_subcorpus_done_{subc}'')
                       [(''subc'', StrArg (ati_label task))]),
                  EmitChange_sl]))"
  by (simp add: announce_task_def)

lemma foldl_announce_task_state:
  "fst (foldl (announce_task lm) (st, es) ts)
     = st\<lparr> sl_finishedTasks :=
            (\<lambda>k. if k \<in> ati_ident ` set ts then Some True else sl_finishedTasks st k) \<rparr>"
proof (induction ts arbitrary: st es)
  case Nil
  then show ?case by simp
next
  case (Cons t ts)
  show ?case
  proof (cases "sl_finishedTasks st (ati_ident t) = Some True")
    case True
    have "(\<lambda>k. if k \<in> ati_ident ` set ts then Some True else sl_finishedTasks st k)
        = (\<lambda>k. if k \<in> ati_ident ` set (t # ts) then Some True else sl_finishedTasks st k)"
      using True by auto
    with True show ?thesis
      by (simp add: announce_task_cases Cons.IH)
  next
    case False
    have "(\<lambda>k. if k \<in> ati_ident ` set ts then Some True
                else ((sl_finishedTasks st)(ati_ident t \<mapsto> True)) k)
        = (\<lambda>k. if k \<in> ati_ident ` set (t # ts) then Some True else sl_finishedTasks st k)"
      by auto
    with False show ?thesis
      by (simp add: announce_task_cases Cons.IH cong: if_cong)
  qed
qed

lemma foldl_announce_task_effects:
  "snd (foldl (announce_task lm) (st, es) ts)
     = es @ concat (map (\<lambda>task.
                          [ShowMessage (if ati_status task = ''FAILURE'' then ''error'' else ''info'')
                             (translate lm (if ati_status task = ''FAILURE''
                                            then ''task__type_subcorpus_failed_{subc}''
                                            else ''task__type_subcorpus_done_{subc}'')
                                [(''subc'', StrArg (ati_label task))]),
                           EmitChange_sl])
                        (tasks_to_announce (\<lambda>k. sl_finishedTasks st k = Some True) ts))"
proof (induction ts arbitrary: st es)
  case Nil
  then show ?case by simp
next
  case (Cons t ts)
  show ?case
  proof (cases "sl_finishedTasks st (ati_ident t) = Some True")
    case True
    then show ?thesis
      by (simp add: announce_task_cases Cons.IH)
  next
    case False
    have "(\<lambda>k. ((sl_finishedTasks st)(ati_ident t \<mapsto> True)) k = Some True)
        = (\<lambda>k. k = ati_ident t \<or> sl_finishedTasks st k = Some True)"
      by auto
    with False show ?thesis
      by (simp add: announce_task_cases Cons.IH)
  qed
qed

lemma tasks_to_announce_idents:
  "ati_ident ` set (tasks_to_announce recorded ts) = ati_ident ` set ts - {k. recorded k}"
proof (induction ts arbitrary: recorded)
  case Nil
  then show ?case by simp
next
  case (Cons t ts)
  show ?case
  proof (cases "recorded (ati_ident t)")
    case True
    then show ?thesis
      by (auto simp add: Cons.IH)
  next
    case False
    then show ?thesis
      by (auto simp add: Cons.IH)
  qed
qed

lemma tasks_to_announce_distinct:
  "distinct (map ati_ident (tasks_to_announce recorded ts))"
proof (induction ts arbitrary: recorded)
  case Nil
  then show ?case by simp
next
  case (Cons t ts)
  have "ati_ident t \<notin> ati_ident ` set (tasks_to_announce (\<lambda>k. k = ati_ident t \<or> recorded k) ts)"
    unfolding tasks_to_announce_idents by simp
  then show ?case
    by (simp add: Cons.IH)
qed

lemma messages_in_announcements:
  "length (messages_in (concat (map (\<lambda>task. [ShowMessage (kind task) (text task), EmitChange_sl]) ts)))
     = length ts"
  by (induction ts) simp_all

lemma requests_in_announcements:
  "requests_in (concat (map (\<lambda>task. [ShowMessage (kind task) (text task), EmitChange_sl]) ts)) = []"
  by (induction ts) simp_all

text \<open>
  Claim C9, as stated: no component keeps track of operations in flight, and every
  interaction with the server is a request whose response is handled in isolation. It fails
  for \<open>SubcorpListModel\<close>, which follows the subcorpus tasks that run on the server. An
  update of the tasks that arrives for the first time is answered with a message and a
  change of the state for each subcorpus task, and a request that reloads the list; the
  same update arriving again is answered with the request only, since the model has
  recorded the tasks it has announced.
\<close>

theorem C9_counterexample:
  "snd (onAsyncTaskUpdate sample_api sample_list sample_update)
     = [ShowMessage ''info'' ''task__type_subcorpus_done_{subc}'',
        EmitChange_sl,
        ShowMessage ''error'' ''task__type_subcorpus_failed_{subc}'',
        EmitChange_sl,
        AjaxRequest \<lparr> req_method = GET, req_url = ''subcorpus/list'',
                      req_args = [(''format'', ''json''), (''sort'', ''name''),
                                  (''show_archived'', ''0''), (''corpname'', '''')] \<rparr>]
   \<and> snd (onAsyncTaskUpdate sample_api
            (fst (onAsyncTaskUpdate sample_api sample_list sample_update)) sample_update)
     = [AjaxRequest \<lparr> req_method = GET, req_url = ''subcorpus/list'',
                      req_args = [(''format'', ''json''), (''sort'', ''name''),
                                  (''show_archived'', ''0''), (''corpname'', '''')] \<rparr>]"
  by (simp add: onAsyncTaskUpdate_def sample_update_def sample_list_def sample_api_def
      announce_task_cases reloadItems_request_def filterItems_request_def mergeFilter_def
      exportVal_bool_def Let_def)

text \<open>
  Claim C9, amended: besides requests, their responses and the actions of the user
  interface, \<open>SubcorpListModel\<close> handles the updates of the asynchronous tasks of the server,
  and keeps a record of the subcorpus tasks it has announced. An update with no task of the
  category \<open>subcorpus\<close> changes nothing and does nothing. Any other update records every
  subcorpus task of the update as finished and changes nothing else in the state. For each
  identifier of these tasks that was not recorded before, once, at its first task and in
  the order of the update, it shows one message, an error with the text for a failed
  subcorpus when the status of the task is \<open>FAILURE\<close> and an information with the text for a
  finished one otherwise, both with the label of the task, and notifies the listeners of
  the change of the state. After them it sends one request, the reload of the list:
  \<open>GET subcorpus/list\<close> with the filter and the sort key of the state. The run of the
  handler has no other effect; the response to the reload is handled when it arrives.
\<close>

theorem C9_async_task_monitor:
  "fst (onAsyncTaskUpdate lm st itemList)
     = st\<lparr> sl_finishedTasks :=
            (\<lambda>k. if k \<in> ati_ident ` set (filter (\<lambda>item. ati_category item = ''subcorpus'') itemList)
                  then Some True else sl_finishedTasks st k) \<rparr>
   \<and> snd (onAsyncTaskUpdate lm st itemList)
     = (if filter (\<lambda>item. ati_category item = ''subcorpus'') itemList = [] then []
        else concat (map (\<lambda>task.
                            [ShowMessage (if ati_status task = ''FAILURE'' then ''error'' else ''info'')
                               (translate lm (if ati_status task = ''FAILURE''
                                              then ''task__type_subcorpus_failed_{subc}''
                                              else ''task__type_subcorpus_done_{subc}'')
                                  [(''subc'', StrArg (ati_label task))]),
                             EmitChange_sl])
                          (tasks_to_announce (\<lambda>k. sl_finishedTasks st k = Some True)
                             (filter (\<lambda>item. ati_category item = ''subcorpus'') itemList)))
             @ [AjaxRequest (filterItems_request lm st (sl_filter st))])
   \<and> ati_ident ` set (tasks_to_announce (\<lambda>k. sl_finishedTasks st k = Some True)
                        (filter (\<lambda>item. ati_category item = ''subcorpus'') itemList))
     = ati_ident ` set (filter (\<lambda>item. ati_category item = ''subcorpus'') itemList)
       - {k. sl_finishedTasks st k = Some True}
   \<and> distinct (map ati_ident (tasks_to_announce (\<lambda>k. sl_finishedTasks st k = Some True)
                                (filter (\<lambda>item. ati_category item = ''subcorpus'') itemList)))
   \<and> requests_in (snd (onAsyncTaskUpdate lm st itemList))
     = (if filter (\<lambda>item. ati_category item = ''subcorpus'') itemList = [] then []
        else [filterItems_request lm st (sl_filter st)])
   \<and> length (messages_in (snd (onAsyncTaskUpdate lm st itemList)))
     = card (ati_ident ` set (filter (\<lambda>item. ati_category item = ''subcorpus'') itemList)
             - {k. sl_finishedTasks st k = Some True})"
proof -
  let ?ts = "filter (\<lambda>item. ati_category item = ''subcorpus'') itemList"
  let ?new = "tasks_to_announce (\<lambda>k. sl_finishedTasks st k = Some True) ?ts"
  let ?r = "foldl (announce_task lm) (st, []) ?ts"
  let ?ann = "concat (map (\<lambda>task.
                            [ShowMessage (if ati_status task = ''FAILURE'' then ''error'' else ''info'')
                               (translate lm (if ati_status task = ''FAILURE''
                                              then ''task__type_subcorpus_failed_{subc}''
                                              else ''task__type_subcorpus_done_{subc}'')
                                  [(''subc'', StrArg (ati_label task))]),
                             EmitChange_sl])
                          ?new)"
  have idents: "ati_ident ` set ?new = ati_ident ` set ?ts - {k. sl_finishedTasks st k = Some True}"
    by (simp add: tasks_to_announce_idents)
  have dist: "distinct (map ati_ident ?new)"
    by (rule tasks_to_announce_distinct)
  have count: "length ?new = card (ati_ident ` set ?ts - {k. sl_finishedTasks st k = Some True})"
    using distinct_card [OF dist] idents by simp
  have state: "fst (onAsyncTaskUpdate lm st itemList)
     = st\<lparr> sl_finishedTasks :=
            (\<lambda>k. if k \<in> ati_ident ` set ?ts then Some True else sl_finishedTasks st k) \<rparr>"
  proof (cases "?ts = []")
    case True
    then show ?thesis
      by (simp add: onAsyncTaskUpdate_def Let_def)
  next
    case False
    then have "fst (onAsyncTaskUpdate lm st itemList) = fst ?r"
      by (simp add: onAsyncTaskUpdate_def Let_def split: prod.splits)
    then show ?thesis
      by (simp only: foldl_announce_task_state)
  qed
  have request: "reloadItems_request lm (st\<lparr> sl_finishedTasks := f \<rparr>)
      = filterItems_request lm st (sl_filter st)" for f
    by (simp add: reloadItems_request_def filterItems_request_def)
  have effects: "snd (onAsyncTaskUpdate lm st itemList)
     = (if ?ts = [] then [] else ?ann @ [AjaxRequest (filterItems_request lm st (sl_filter st))])"
  proof (cases "?ts = []")
    case True
    then show ?thesis
      by (simp add: onAsyncTaskUpdate_def Let_def)
  next
    case False
    then have "snd (onAsyncTaskUpdate lm st itemList)
        = snd ?r @ [AjaxRequest (reloadItems_request lm (fst ?r))]"
      by (simp add: onAsyncTaskUpdate_def Let_def split: prod.splits)
    also have "snd ?r = ?ann"
      using foldl_announce_task_effects [of lm st "[]" ?ts] by simp
    also have "reloadItems_request lm (fst ?r) = filterItems_request lm st (sl_filter st)"
      by (simp only: foldl_announce_task_state request)
    finally show ?thesis
      using False by simp
  qed
  have requests: "requests_in (snd (onAsyncTaskUpdate lm st itemList))
     = (if ?ts = [] then [] else [filterItems_request lm st (sl_filter st)])"
    unfolding effects by (simp add: requests_in_append requests_in_announcements)
  have messages: "length (messages_in (snd (onAsyncTaskUpdate lm st itemList)))
     = card (ati_ident ` set ?ts - {k. sl_finishedTasks st k = Some True})"
  proof (cases "?ts = []")
    case True
    then show ?thesis
      unfolding effects by simp
  next
    case False
    then show ?thesis
      unfolding effects
      by (simp add: messages_in_append messages_in_announcements count del: set_filter)
  qed
  from state effects idents dist requests messages show ?thesis
    by (intro conjI)
qed

end
